theory Spec2Isabelle
  imports Main "HOL-Library.Multiset"
begin

section \<open>The metrics store of youtube_analytics_db.py\<close>

text \<open>
  A shallow embedding of the class \<open>YouTubeAnalyticsDB\<close>: the two SQLite tables, the
  operations that write and query them, and the sync orchestration on top of the two
  external YouTube clients.

  Calendar dates are Python \<open>datetime.date\<close> values. They are modelled by their
  proleptic Gregorian ordinal (\<open>date.toordinal()\<close>), so that \<open>(d1 - d2).days\<close> is the
  difference of the ordinals and \<open>max\<close> and the comparison of dates are those of the
  integers. SQLite stores a date as the text \<open>YYYY-MM-DD\<close> (four digit year, zero padded),
  whose binary text order is the order of the ordinals, and \<open>strptime\<close> of that text gives
  the date back; the model keeps the ordinal throughout. A \<open>date\<close> only exists between
  \<open>date.min\<close> and \<open>date.max\<close>; arithmetic that leaves the range raises OverflowError.

  Counts and limits are Python integers, modelled by \<open>int\<close>. SQLite's INTEGER has 64
  bits: binding a Python integer outside that range to a parameter of a statement raises
  OverflowError, and \<open>SUM\<close> raises the OperationalError "integer overflow" when its
  running total leaves the range. Failures of the storage itself (an unreadable file, a
  full disk) are outside the model.
\<close>

type_synonym date = int

definition date_min :: date where
  "date_min = 1"

definition date_max :: date where
  "date_max = 3652059"

definition timedelta_max_days :: int where
  "timedelta_max_days = 999999999"

definition int64_min :: int where
  "int64_min = - (2 ^ 63)"

definition int64_max :: int where
  "int64_max = 2 ^ 63 - 1"

definition sqlite_int64 :: "int \<Rightarrow> bool" where
  "sqlite_int64 n \<longleftrightarrow> int64_min \<le> n \<and> n \<le> int64_max"

text \<open>What a call does when it does not return.\<close>

datatype error = OverflowError | OperationalError

datatype 'a outcome = Return 'a | Raise error

subsection \<open>Data classes and tables\<close>

record VideoInfo =
  video_id :: string
  title :: string
  published_date :: date
  channel_id :: string

text \<open>
  The fields of \<open>DailyMetric\<close> that share a name with a field of \<open>VideoInfo\<close> carry the
  alias \<open>dm\<close> that the first-week query gives the table \<open>daily_metrics\<close>.
\<close>

record DailyMetric =
  dm_video_id :: string
  dm_date :: date
  days_since_published :: int
  traffic_source :: string
  views :: int

text \<open>
  A row of the table \<open>videos\<close>: the four columns of a \<open>VideoInfo\<close>, the rowid that
  SQLite gives the row, and the two columns that \<open>CURRENT_TIMESTAMP\<close> fills. A timestamp
  is modelled by a count of seconds.
\<close>

type_synonym timestamp = int

record video_row = VideoInfo +
  rowid :: nat
  created_at :: timestamp
  updated_at :: timestamp

text \<open>The \<open>VideoInfo\<close> that a row of \<open>videos\<close> holds.\<close>

definition video_of_row :: "video_row \<Rightarrow> VideoInfo" where
  "video_of_row r =
     \<lparr>video_id = video_id r, title = title r, published_date = published_date r,
      channel_id = channel_id r\<rparr>"

text \<open>
  The database: the rows of \<open>videos\<close> and of \<open>daily_metrics\<close>, each list in rowid
  order (oldest insertion first). A row of \<open>daily_metrics\<close> is modelled by the five
  columns the program binds; its autoincrement \<open>id\<close> and its \<open>created_at\<close> default are
  left out. The declared \<open>FOREIGN KEY\<close> is not part of the model's write path: SQLite
  enforces foreign keys only under \<open>PRAGMA foreign_keys = ON\<close>, which no connection of
  the program issues.
\<close>

record store =
  videos :: "video_row list"
  daily_metrics :: "DailyMetric list"

text \<open>The outcome of a call together with the database it leaves.\<close>

record 'a effect =
  result :: "'a outcome"
  db :: store

text \<open>
  \<open>init_database\<close>: \<open>CREATE TABLE IF NOT EXISTS\<close> creates both tables empty in a fresh
  file (\<open>None\<close>) and leaves the tables of an existing file as they are.
\<close>

definition init_database :: "store option \<Rightarrow> store" where
  "init_database file =
     (case file of
        None \<Rightarrow> \<lparr>videos = [], daily_metrics = []\<rparr>
      | Some s \<Rightarrow> s)"

subsection \<open>Writes\<close>

text \<open>
  The rowid of an inserted row: one more than the largest rowid in the table, taken
  before a conflicting row is deleted. Rowids are natural numbers in the model; the
  table never holds the largest 64-bit rowid, after which SQLite would pick an unused one.
\<close>

definition new_rowid :: "video_row list \<Rightarrow> nat" where
  "new_rowid rows = Suc (foldr max (map rowid rows) 0)"

text \<open>
  \<open>INSERT OR REPLACE INTO videos\<close> at the time \<open>now\<close>: a row that conflicts on the
  primary key \<open>video_id\<close> is deleted, and a new row is inserted with a fresh rowid,
  \<open>updated_at\<close> set to \<open>CURRENT_TIMESTAMP\<close> by the statement and \<open>created_at\<close> by its
  default. The bound values are three strings and a date, so no binding can overflow.
\<close>

definition inserted_row :: "timestamp \<Rightarrow> video_row list \<Rightarrow> VideoInfo \<Rightarrow> video_row" where
  "inserted_row now rows video =
     \<lparr>video_id = video_id video, title = title video,
      published_date = published_date video, channel_id = channel_id video,
      rowid = new_rowid rows, created_at = now, updated_at = now\<rparr>"

definition store_video_info :: "timestamp \<Rightarrow> store \<Rightarrow> VideoInfo \<Rightarrow> store" where
  "store_video_info now s video =
     s\<lparr>videos := filter (\<lambda>r. video_id r \<noteq> video_id video) (videos s) @
                   [inserted_row now (videos s) video]\<rparr>"

text \<open>The columns of \<open>UNIQUE(video_id, date, traffic_source)\<close>.\<close>

definition metric_key :: "DailyMetric \<Rightarrow> string \<times> date \<times> string" where
  "metric_key m = (dm_video_id m, dm_date m, traffic_source m)"

text \<open>
  One \<open>INSERT OR REPLACE INTO daily_metrics\<close>: the row that conflicts on the unique key
  is deleted and the new row inserted. Nothing looks at \<open>videos\<close>.
\<close>

definition insert_or_replace_metric :: "DailyMetric list \<Rightarrow> DailyMetric \<Rightarrow> DailyMetric list" where
  "insert_or_replace_metric rows metric =
     filter (\<lambda>r. metric_key r \<noteq> metric_key metric) rows @ [metric]"

text \<open>
  The two integers of a metric that are bound to the statement fit SQLite's INTEGER.
\<close>

definition bindable :: "DailyMetric \<Rightarrow> bool" where
  "bindable metric \<longleftrightarrow>
     sqlite_int64 (days_since_published metric) \<and> sqlite_int64 (views metric)"

text \<open>
  The \<open>for metric in metrics\<close> loop, in list order, on the rows of the open
  transaction: \<open>execute\<close> raises OverflowError at the first metric that cannot be bound.
\<close>

fun execute_inserts :: "DailyMetric list \<Rightarrow> DailyMetric list \<Rightarrow> DailyMetric list outcome" where
  "execute_inserts rows [] = Return rows"
| "execute_inserts rows (metric # metrics) =
     (if bindable metric then execute_inserts (insert_or_replace_metric rows metric) metrics
      else Raise OverflowError)"

text \<open>
  \<open>store_daily_metrics\<close>: when the loop ends, \<open>commit\<close> makes its rows the table. When
  the loop raises, \<open>commit\<close> and \<open>close\<close> are not reached: the inserts of this call are
  never seen by another connection and are rolled back when the connection is dropped,
  so the database is as it was before the call. Until then the dropped connection keeps
  the write lock; locking is outside the model, which is why the properties below speak
  of one call that raises, and of sequences of calls that all return.
\<close>

definition store_daily_metrics :: "store \<Rightarrow> DailyMetric list \<Rightarrow> unit effect" where
  "store_daily_metrics s metrics =
     (case execute_inserts (daily_metrics s) metrics of
        Return rows \<Rightarrow> \<lparr>result = Return (), db = s\<lparr>daily_metrics := rows\<rparr>\<rparr>
      | Raise err \<Rightarrow> \<lparr>result = Raise err, db = s\<rparr>)"

subsection \<open>The external clients\<close>

text \<open>
  A call of an external client either raises or returns a response. Both fetch functions
  wrap the call and the whole decoding of the response in one \<open>try ... except Exception\<close>
  whose handler discards everything built so far, so a response that cannot be decoded
  (a missing key, a date or a count that does not parse) is the outcome \<open>Raised\<close> too, and
  a returned response is given already decoded.
\<close>

datatype 'a api_result = Raised | Returned 'a

text \<open>The \<open>snippet\<close> of an item of the Data API's \<open>videos().list\<close> response.\<close>

record snippet =
  sn_title :: string
  publishedAt :: date
  channelId :: string

text \<open>The parameters of one \<open>reports().query\<close> request that vary.\<close>

record query =
  q_video :: string
  startDate :: date
  endDate :: date

text \<open>
  The world outside the database, as one sync sees it: what
  \<open>get_youtube_data_client\<close> and \<open>get_youtube_analytics_client\<close> return (\<open>None\<close> when
  they return None), how a client answers a request, \<open>date.today()\<close>, and SQLite's
  \<open>CURRENT_TIMESTAMP\<close>.
\<close>

record env =
  get_youtube_data_client :: "(string \<Rightarrow> snippet list api_result) option"
  get_youtube_analytics_client :: "(query \<Rightarrow> (date \<times> string \<times> int) list api_result) option"
  today :: date
  current_timestamp :: timestamp

subsection \<open>Fetching\<close>

definition fetch_video_data_from_youtube :: "env \<Rightarrow> string \<Rightarrow> VideoInfo option" where
  "fetch_video_data_from_youtube e vid =
     (case get_youtube_data_client e of
        None \<Rightarrow> None
      | Some data_client \<Rightarrow>
          (case data_client vid of
             Raised \<Rightarrow> None
           | Returned items \<Rightarrow>
               (case items of
                  [] \<Rightarrow> None
                | item # _ \<Rightarrow>
                    Some \<lparr>video_id = vid, title = sn_title item,
                          published_date = publishedAt item, channel_id = channelId item\<rparr>)))"

text \<open>\<open>SELECT ... FROM videos WHERE video_id = ?\<close> followed by \<open>fetchone()\<close>.\<close>

definition select_video :: "store \<Rightarrow> string \<Rightarrow> video_row option" where
  "select_video s vid = find (\<lambda>r. video_id r = vid) (videos s)"

text \<open>The \<open>DailyMetric\<close> built from one row of the analytics response.\<close>

definition metric_of_row :: "string \<Rightarrow> date \<Rightarrow> date \<times> string \<times> int \<Rightarrow> DailyMetric" where
  "metric_of_row vid published row =
     (case row of (day, source, n) \<Rightarrow>
        \<lparr>dm_video_id = vid, dm_date = day, days_since_published = day - published,
         traffic_source = source, views = n\<rparr>)"

text \<open>
  \<open>fetch_daily_analytics_from_youtube\<close> returns the metrics; the second component is the
  list of requests it sent to the analytics API (none or one), which is how the model
  records the effect of the call.
\<close>

definition fetch_daily_analytics_from_youtube ::
  "env \<Rightarrow> store \<Rightarrow> string \<Rightarrow> date \<Rightarrow> date \<Rightarrow> DailyMetric list \<times> query list" where
  "fetch_daily_analytics_from_youtube e s vid start_date end_date =
     (case get_youtube_analytics_client e of
        None \<Rightarrow> ([], [])
      | Some analytics_client \<Rightarrow>
          (case select_video s vid of
             None \<Rightarrow> ([], [])
           | Some found \<Rightarrow>
               (let q = \<lparr>q_video = vid, startDate = start_date, endDate = end_date\<rparr> in
                case analytics_client q of
                  Raised \<Rightarrow> ([], [q])
                | Returned rows \<Rightarrow> (map (metric_of_row vid (published_date found)) rows, [q]))))"

subsection \<open>Sync\<close>

text \<open>The effect of a sync: that of a call, and the analytics requests it sent.\<close>

record 'a sync_effect = "'a effect" +
  requests :: "query list"

text \<open>
  \<open>end_date - timedelta(days=days_back)\<close>: the \<open>timedelta\<close> constructor raises
  OverflowError beyond \<open>timedelta.max\<close>, and so does the subtraction when the date it
  computes is not a \<open>date\<close>.
\<close>

definition date_minus_days :: "date \<Rightarrow> int \<Rightarrow> date outcome" where
  "date_minus_days d n =
     (if \<bar>n\<bar> > timedelta_max_days then Raise OverflowError
      else if d - n < date_min \<or> date_max < d - n then Raise OverflowError
      else Return (d - n))"

text \<open>
  \<open>sync_video\<close> catches nothing: an OverflowError of the date arithmetic or of
  \<open>store_daily_metrics\<close> leaves it, after the video has been stored and committed.
\<close>

definition sync_video :: "env \<Rightarrow> store \<Rightarrow> string \<Rightarrow> int \<Rightarrow> bool sync_effect" where
  "sync_video e s vid days_back =
     (case fetch_video_data_from_youtube e vid of
        None \<Rightarrow> \<lparr>result = Return False, db = s, requests = []\<rparr>
      | Some video_info \<Rightarrow>
          (let s1 = store_video_info (current_timestamp e) s video_info;
               end_date = today e
           in case date_minus_days end_date days_back of
                Raise err \<Rightarrow> \<lparr>result = Raise err, db = s1, requests = []\<rparr>
              | Return earliest \<Rightarrow>
                  (let start_date = max (published_date video_info) earliest;
                       fetched = fetch_daily_analytics_from_youtube e s1 vid start_date end_date
                   in if fst fetched \<noteq> []
                      then (let stored = store_daily_metrics s1 (fst fetched)
                            in case result stored of
                                 Raise err \<Rightarrow>
                                   \<lparr>result = Raise err, db = db stored, requests = snd fetched\<rparr>
                               | Return u \<Rightarrow>
                                   \<lparr>result = Return True, db = db stored, requests = snd fetched\<rparr>)
                      else \<lparr>result = Return True, db = s1, requests = snd fetched\<rparr>)))"

subsection \<open>Queries\<close>

text \<open>
  \<open>SELECT video_id FROM videos ORDER BY published_date DESC LIMIT ?\<close>. Binding a limit
  outside the 64-bit range raises OverflowError; a negative \<open>LIMIT\<close> is no limit in
  SQLite. Among equal dates the order is the storage's; the model takes the one of a
  backwards scan of the index on \<open>published_date\<close> (larger rowid first).
\<close>

definition get_recent_videos :: "store \<Rightarrow> int \<Rightarrow> string list outcome" where
  "get_recent_videos s limit =
     (if \<not> sqlite_int64 limit then Raise OverflowError
      else (let ordered = rev (sort_key published_date (videos s));
                fetched = (if limit < 0 then ordered else take (nat limit) ordered)
            in Return (map video_id fetched)))"

text \<open>
  The first-week query for one \<open>video_id\<close>. \<open>left_join\<close> is
  \<open>videos v LEFT JOIN daily_metrics dm ON v.video_id = dm.video_id\<close>; \<open>join_rows\<close> are
  the joined rows of one video, which is paired with NULL when it has no metrics.
\<close>

definition join_rows :: "DailyMetric list \<Rightarrow> video_row \<Rightarrow> (video_row \<times> DailyMetric option) list" where
  "join_rows dms v =
     (case filter (\<lambda>dm. video_id v = dm_video_id dm) dms of
        [] \<Rightarrow> [(v, None)]
      | ms \<Rightarrow> map (\<lambda>dm. (v, Some dm)) ms)"

definition left_join :: "store \<Rightarrow> (video_row \<times> DailyMetric option) list" where
  "left_join s = concat (map (join_rows (daily_metrics s)) (videos s))"

text \<open>
  The \<open>WHERE\<close> clause: a comparison with the NULL of an unmatched video is not true.
\<close>

definition first_week_where :: "string \<Rightarrow> string \<Rightarrow> video_row \<times> DailyMetric option \<Rightarrow> bool" where
  "first_week_where vid source row =
     (case row of (v, dmo) \<Rightarrow>
        video_id v = vid \<and>
        (case dmo of
           None \<Rightarrow> False
         | Some dm \<Rightarrow> 0 \<le> days_since_published dm \<and> days_since_published dm \<le> 6 \<and>
                      traffic_source dm = source))"

text \<open>
  \<open>SUM\<close> over integers keeps a 64-bit running total, row by row; once an addition
  leaves the range the aggregate is in error (\<open>None\<close>). The rows are added in the order
  in which the query visits them, which is the query plan's: with the indexes the
  program creates, the metrics of the video are read through the index on
  \<open>(video_id, days_since_published)\<close>, that is by \<open>days_since_published\<close> and, among
  equal days, by rowid.
\<close>

fun sum_step :: "int option \<Rightarrow> int \<Rightarrow> int option" where
  "sum_step None v = None"
| "sum_step (Some acc) v = (if sqlite_int64 (acc + v) then Some (acc + v) else None)"

definition sqlite_sum :: "int list \<Rightarrow> int option" where
  "sqlite_sum vs = foldl sum_step (Some 0) vs"

text \<open>
  \<open>GROUP BY v.video_id\<close> over rows that all have the requested \<open>video_id\<close> is at most
  one group; \<open>fetchone()\<close> is that group's row, or None when no row passed the filter.
  An overflow of \<open>SUM(dm.views)\<close> raises OperationalError.
\<close>

text \<open>The columns \<open>dm.views\<close> and \<open>dm.days_since_published\<close> of a joined row.\<close>

definition joined_views :: "video_row \<times> DailyMetric option \<Rightarrow> int" where
  "joined_views row = (case row of (v, dmo) \<Rightarrow> (case dmo of None \<Rightarrow> 0 | Some dm \<Rightarrow> views dm))"

definition joined_day :: "video_row \<times> DailyMetric option \<Rightarrow> int" where
  "joined_day row =
     (case row of (v, dmo) \<Rightarrow> (case dmo of None \<Rightarrow> 0 | Some dm \<Rightarrow> days_since_published dm))"

definition first_week_query ::
  "store \<Rightarrow> string \<Rightarrow> string \<Rightarrow> (string \<times> date \<times> int) option outcome" where
  "first_week_query s vid source =
     (case filter (first_week_where vid source) (left_join s) of
        [] \<Rightarrow> Return None
      | (v, dmo) # rest \<Rightarrow>
          (case sqlite_sum (map joined_views (sort_key joined_day ((v, dmo) # rest))) of
             None \<Rightarrow> Raise OperationalError
           | Some total_views \<Rightarrow> Return (Some (title v, published_date v, total_views))))"

record first_week =
  fw_title :: string
  fw_published_date :: date
  first_week_views :: int

text \<open>
  The \<open>for video_id in video_ids\<close> loop on the dictionary \<open>results\<close>; a query that
  raises ends the call.
\<close>

fun first_week_loop ::
  "store \<Rightarrow> string \<Rightarrow> (string \<rightharpoonup> first_week) \<Rightarrow> string list \<Rightarrow> (string \<rightharpoonup> first_week) outcome" where
  "first_week_loop s source results [] = Return results"
| "first_week_loop s source results (vid # video_ids) =
     (case first_week_query s vid source of
        Raise err \<Rightarrow> Raise err
      | Return None \<Rightarrow> first_week_loop s source results video_ids
      | Return (Some (t, published, total_views)) \<Rightarrow>
          first_week_loop s source
            (results(vid \<mapsto> \<lparr>fw_title = t, fw_published_date = published,
                              first_week_views = (if total_views \<noteq> 0 then total_views else 0)\<rparr>))
            video_ids)"

definition analyze_first_week_performance ::
  "store \<Rightarrow> string list \<Rightarrow> string \<Rightarrow> (string \<rightharpoonup> first_week) outcome" where
  "analyze_first_week_performance s video_ids source =
     first_week_loop s source Map.empty video_ids"

subsection \<open>Notions the properties are stated with\<close>

text \<open>
  A sequence of \<open>store_daily_metrics\<close> calls, each with its own list of metrics and each
  on the database the one before has left; every call of the sequence has its own
  connection.
\<close>

definition store_daily_metrics_calls :: "store \<Rightarrow> DailyMetric list list \<Rightarrow> store" where
  "store_daily_metrics_calls s calls = foldl (\<lambda>s' metrics. db (store_daily_metrics s' metrics)) s calls"

text \<open>
  The last metric for the video \<open>vid\<close>, the date \<open>day\<close> and the traffic source
  \<open>source\<close> among the metrics of a sequence of calls, if there is one.
\<close>

definition last_write ::
  "string \<Rightarrow> date \<Rightarrow> string \<Rightarrow> DailyMetric list list \<Rightarrow> DailyMetric option" where
  "last_write vid day source calls =
     (let writes = filter (\<lambda>m. dm_video_id m = vid \<and> dm_date m = day \<and> traffic_source m = source)
                     (concat calls)
      in if writes = [] then None else Some (last writes))"

text \<open>All rows of \<open>daily_metrics\<close> for a video, a date and a traffic source.\<close>

definition read_key :: "store \<Rightarrow> string \<Rightarrow> date \<Rightarrow> string \<Rightarrow> DailyMetric list" where
  "read_key s vid day source =
     filter (\<lambda>r. dm_video_id r = vid \<and> dm_date r = day \<and> traffic_source r = source)
       (daily_metrics s)"

text \<open>
  The analytics request \<open>q\<close> fails: there is no client to send it with, or the client
  raises.
\<close>

definition analytics_call_fails :: "env \<Rightarrow> query \<Rightarrow> bool" where
  "analytics_call_fails e q =
     (case get_youtube_analytics_client e of
        None \<Rightarrow> True
      | Some analytics_client \<Rightarrow> analytics_client q = Raised)"

text \<open>
  Referential integrity: every row of \<open>daily_metrics\<close> has the \<open>video_id\<close> of a row of
  \<open>videos\<close>.
\<close>

definition referential_integrity :: "store \<Rightarrow> bool" where
  "referential_integrity s =
     list_all (\<lambda>m. dm_video_id m \<in> set (map video_id (videos s))) (daily_metrics s)"

text \<open>
  The rows of \<open>daily_metrics\<close> that count for the first week of \<open>vid\<close> under a traffic
  source: day 0 to day 6 since publication, the source compared as a string.
\<close>

definition first_week_rows :: "store \<Rightarrow> string \<Rightarrow> string \<Rightarrow> DailyMetric list" where
  "first_week_rows s vid source =
     filter (\<lambda>m. dm_video_id m = vid \<and> 0 \<le> days_since_published m \<and>
                 days_since_published m \<le> 6 \<and> traffic_source m = source)
       (daily_metrics s)"

text \<open>
  A list of integers whose running total stays in the 64-bit range in whatever order
  they are added: the negative ones together and the positive ones together fit.
\<close>

definition sum_fits_any_order :: "int list \<Rightarrow> bool" where
  "sum_fits_any_order vs \<longleftrightarrow>
     int64_min \<le> sum_list (map (min 0) vs) \<and> sum_list (map (max 0) vs) \<le> int64_max"

text \<open>
  The rows of \<open>videos\<close> that \<open>get_recent_videos\<close> fetches, before the column
  \<open>video_id\<close> is taken from each.
\<close>

definition recent_rows :: "store \<Rightarrow> int \<Rightarrow> video_row list" where
  "recent_rows s limit =
     (if limit < 0 then rev (sort_key published_date (videos s))
      else take (nat limit) (rev (sort_key published_date (videos s))))"

subsection \<open>Example data\<close>

text \<open>
  The date 738886 is 2024-01-01. \<open>env_ok\<close> is a world where both clients answer;
  in \<open>env_analytics_down\<close> the analytics request raises. \<open>store_scenario\<close> holds a video
  published on 2024-01-01 with metrics on day 0, day 2 and day 9; \<open>store_orphan\<close> is a
  fresh database after one \<open>store_daily_metrics\<close> call; in \<open>store_large\<close> the first-week
  views of a video are the largest 64-bit integer and 1.
\<close>

definition video_A1 :: VideoInfo where
  "video_A1 = \<lparr>video_id = ''A'', title = ''T1'', published_date = 738886, channel_id = ''UC1''\<rparr>"

definition video_A2 :: VideoInfo where
  "video_A2 = \<lparr>video_id = ''A'', title = ''T2'', published_date = 738886, channel_id = ''UC1''\<rparr>"

definition video_B :: VideoInfo where
  "video_B = \<lparr>video_id = ''B'', title = ''TB'', published_date = 738900, channel_id = ''UC1''\<rparr>"

definition video_C :: VideoInfo where
  "video_C = \<lparr>video_id = ''C'', title = ''TC'', published_date = 738890, channel_id = ''UC1''\<rparr>"

definition metric_A :: "date \<Rightarrow> string \<Rightarrow> int \<Rightarrow> DailyMetric" where
  "metric_A day source n =
     \<lparr>dm_video_id = ''A'', dm_date = day, days_since_published = day - 738886,
      traffic_source = source, views = n\<rparr>"

definition store_A :: store where
  "store_A = store_video_info 1000 (init_database None) video_A1"

definition store_three :: store where
  "store_three = store_video_info 1002 (store_video_info 1001 store_A video_B) video_C"

definition store_scenario :: store where
  "store_scenario =
     db (store_daily_metrics store_A
           [metric_A 738886 ''BROWSE'' 100, metric_A 738888 ''BROWSE'' 50,
            metric_A 738895 ''BROWSE'' 10])"

definition store_orphan :: store where
  "store_orphan = db (store_daily_metrics (init_database None) [metric_A 738886 ''BROWSE'' 100])"

definition store_large :: store where
  "store_large =
     db (store_daily_metrics store_A
           [metric_A 738886 ''BROWSE'' 9223372036854775807, metric_A 738887 ''BROWSE'' 1])"

definition data_client_A :: "string \<Rightarrow> snippet list api_result" where
  "data_client_A vid =
     (if vid = ''A'' then Returned [\<lparr>sn_title = ''T1'', publishedAt = 738886, channelId = ''UC1''\<rparr>]
      else Returned [])"

definition env_ok :: env where
  "env_ok = \<lparr>get_youtube_data_client = Some data_client_A,
             get_youtube_analytics_client =
               Some (\<lambda>q. Returned [(738886, ''BROWSE'', 100), (738888, ''BROWSE'', 50)]),
             today = 738900, current_timestamp = 1000\<rparr>"

definition env_analytics_down :: env where
  "env_analytics_down = \<lparr>get_youtube_data_client = Some data_client_A,
             get_youtube_analytics_client = Some (\<lambda>q. Raised),
             today = 738900, current_timestamp = 1000\<rparr>"

section \<open>Properties\<close>

subsection \<open>Upserting a video\<close>

lemma videos_store_video_info:
  "videos (store_video_info now s v) =
     filter (\<lambda>r. video_id r \<noteq> video_id v) (videos s) @ [inserted_row now (videos s) v]"
  by (simp add: store_video_info_def)

lemma daily_metrics_store_video_info:
  "daily_metrics (store_video_info now s v) = daily_metrics s"
  by (simp add: store_video_info_def)

lemma video_id_inserted_row:
  "video_id (inserted_row now rows v) = video_id v"
  by (simp add: inserted_row_def)

lemma video_of_inserted_row:
  "video_of_row (inserted_row now rows v) = v"
  by (simp add: inserted_row_def video_of_row_def)

lemma find_filter_neq_snoc:
  "f x = k \<Longrightarrow> find (\<lambda>r. f r = k) (filter (\<lambda>r. f r \<noteq> k) xs @ [x]) = Some x"
  by (induction xs) simp_all

lemma find_filter_other_snoc:
  "k' \<noteq> k \<Longrightarrow> f x = k \<Longrightarrow>
     find (\<lambda>r. f r = k') (filter (\<lambda>r. f r \<noteq> k) xs @ [x]) = find (\<lambda>r. f r = k') xs"
  by (induction xs) auto

lemma select_video_store_video_info:
  "select_video (store_video_info now s v) (video_id v) = Some (inserted_row now (videos s) v)"
  by (simp add: select_video_def videos_store_video_info find_filter_neq_snoc video_id_inserted_row)

lemma select_video_store_video_info_other:
  "vid \<noteq> video_id v \<Longrightarrow> select_video (store_video_info now s v) vid = select_video s vid"
  by (simp add: select_video_def videos_store_video_info find_filter_other_snoc video_id_inserted_row)

lemma find_None_filter_id:
  "find (\<lambda>r. f r = k) xs = None \<Longrightarrow> filter (\<lambda>r. f r \<noteq> k) xs = xs"
  by (induction xs) (simp_all split: if_splits)

lemma select_video_Some_mem:
  "select_video s vid = Some r \<Longrightarrow> vid \<in> set (map video_id (videos s))"
  by (auto simp: select_video_def find_Some_iff)

lemma video_id_mem_store_video_info:
  "set (map video_id (videos (store_video_info now s v))) =
     insert (video_id v) (set (map video_id (videos s)))"
  by (auto simp: videos_store_video_info video_id_inserted_row)

lemma find_distinct_mem:
  "distinct (map video_id xs) \<Longrightarrow> r \<in> set xs \<Longrightarrow> find (\<lambda>x. video_id x = video_id r) xs = Some r"
  by (induction xs) auto

lemma select_video_distinct:
  "distinct (map video_id (videos s)) \<Longrightarrow> r \<in> set (videos s) \<Longrightarrow>
     select_video s (video_id r) = Some r"
  by (simp add: select_video_def find_distinct_mem)

lemma distinct_video_ids_store_video_info:
  "distinct (map video_id (videos s)) \<Longrightarrow>
     distinct (map video_id (videos (store_video_info now s v)))"
  by (auto simp: videos_store_video_info distinct_map_filter video_id_inserted_row)

lemma rowid_le_foldr_max:
  "r \<in> set rows \<Longrightarrow> rowid r \<le> foldr max (map rowid rows) 0"
  by (induction rows) auto

lemma rowid_less_new_rowid:
  "r \<in> set rows \<Longrightarrow> rowid r < new_rowid rows"
  using rowid_le_foldr_max [of r rows] by (simp add: new_rowid_def)

lemma rowid_less_inserted_row:
  "r \<in> set rows \<Longrightarrow> rowid r < rowid (inserted_row now rows v)"
  by (simp add: inserted_row_def rowid_less_new_rowid)

text \<open>
The example store with the one video \<open>video_A1\<close>, stored at the time 1000.
\<close>

lemma videos_store_A:
  "videos store_A =
     [\<lparr>video_id = ''A'', title = ''T1'', published_date = 738886, channel_id = ''UC1'',
       rowid = 1, created_at = 1000, updated_at = 1000\<rparr>]"
  by (simp add: store_A_def store_video_info_def init_database_def inserted_row_def
      new_rowid_def video_A1_def)

lemma daily_metrics_store_A: "daily_metrics store_A = []"
  by (simp add: store_A_def store_video_info_def init_database_def)

lemma select_video_store_A:
  "map_option video_of_row (select_video store_A ''A'') = Some video_A1"
  by (simp add: select_video_def videos_store_A video_of_row_def video_A1_def)

lemma store_A_eq:
  "store_A =
     \<lparr>videos = [\<lparr>video_id = ''A'', title = ''T1'', published_date = 738886, channel_id = ''UC1'',
                 rowid = 1, created_at = 1000, updated_at = 1000\<rparr>],
      daily_metrics = []\<rparr>"
  by (simp add: store_A_def store_video_info_def init_database_def inserted_row_def
      new_rowid_def video_A1_def)

text \<open>
  C8, as the code has it. Storing a video and then storing another one with the same
  \<open>video_id\<close> leaves exactly one row of \<open>videos\<close> for that id, which holds the second
  video (so its title is the second title). Storing a video that the table already
  holds with the same four values keeps what a lookup by \<open>video_id\<close> finds for every
  id, but it does not leave the store unchanged: in every case the rows of other videos
  are kept as they are and in their order, and the video's row is replaced by one new
  row, placed last, with a rowid larger than every rowid of the table and with
  \<open>created_at\<close> and \<open>updated_at\<close> set to the time of the call. Storing a video whose id is
  not in the table appends its row and keeps all others. The metrics are not touched.
\<close>

theorem store_video_info_upsert:
  "(video_id v2 = video_id v1 \<longrightarrow>
      map video_of_row (filter (\<lambda>r. video_id r = video_id v1)
         (videos (store_video_info t2 (store_video_info t1 s v1) v2))) = [v2] \<and>
      map_option video_of_row
         (select_video (store_video_info t2 (store_video_info t1 s v1) v2) (video_id v1)) = Some v2) \<and>
   (map_option video_of_row (select_video s (video_id v)) = Some v \<longrightarrow>
      (\<forall>vid. map_option video_of_row (select_video (store_video_info now s v) vid) =
             map_option video_of_row (select_video s vid))) \<and>
   videos (store_video_info now s v) =
     filter (\<lambda>r. video_id r \<noteq> video_id v) (videos s) @ [inserted_row now (videos s) v] \<and>
   filter (\<lambda>r. video_id r = video_id v) (videos (store_video_info now s v)) =
     [inserted_row now (videos s) v] \<and>
   video_of_row (inserted_row now (videos s) v) = v \<and>
   created_at (inserted_row now (videos s) v) = now \<and>
   updated_at (inserted_row now (videos s) v) = now \<and>
   (\<forall>r \<in> set (videos s). rowid r < rowid (inserted_row now (videos s) v)) \<and>
   (select_video s (video_id v) = None \<longrightarrow>
      videos (store_video_info now s v) = videos s @ [inserted_row now (videos s) v]) \<and>
   daily_metrics (store_video_info now s v) = daily_metrics s"
proof (intro conjI impI allI ballI)
  assume eq: "video_id v2 = video_id v1"
  show "map video_of_row (filter (\<lambda>r. video_id r = video_id v1)
         (videos (store_video_info t2 (store_video_info t1 s v1) v2))) = [v2]"
    using eq by (simp add: videos_store_video_info video_id_inserted_row video_of_inserted_row)
  show "map_option video_of_row
         (select_video (store_video_info t2 (store_video_info t1 s v1) v2) (video_id v1)) = Some v2"
    using select_video_store_video_info [of t2 "store_video_info t1 s v1" v2] eq
    by (simp add: video_of_inserted_row)
next
  fix vid
  assume same: "map_option video_of_row (select_video s (video_id v)) = Some v"
  show "map_option video_of_row (select_video (store_video_info now s v) vid) =
        map_option video_of_row (select_video s vid)"
  proof (cases "vid = video_id v")
    case True
    have new: "map_option video_of_row (select_video (store_video_info now s v) (video_id v)) = Some v"
      by (simp add: select_video_store_video_info video_of_inserted_row)
    show ?thesis
      unfolding True by (rule trans [OF new same [symmetric]])
  next
    case False
    then show ?thesis
      by (simp add: select_video_store_video_info_other)
  qed
next
  show "videos (store_video_info now s v) =
     filter (\<lambda>r. video_id r \<noteq> video_id v) (videos s) @ [inserted_row now (videos s) v]"
    by (rule videos_store_video_info)
next
  show "filter (\<lambda>r. video_id r = video_id v) (videos (store_video_info now s v)) =
     [inserted_row now (videos s) v]"
    by (simp add: videos_store_video_info video_id_inserted_row)
next
  show "video_of_row (inserted_row now (videos s) v) = v"
    by (rule video_of_inserted_row)
next
  show "created_at (inserted_row now (videos s) v) = now"
    and "updated_at (inserted_row now (videos s) v) = now"
    by (simp_all add: inserted_row_def)
next
  fix r
  assume "r \<in> set (videos s)"
  then show "rowid r < rowid (inserted_row now (videos s) v)"
    by (rule rowid_less_inserted_row)
next
  assume "select_video s (video_id v) = None"
  then show "videos (store_video_info now s v) = videos s @ [inserted_row now (videos s) v]"
    by (simp add: videos_store_video_info select_video_def find_None_filter_id)
next
  show "daily_metrics (store_video_info now s v) = daily_metrics s"
    by (rule daily_metrics_store_video_info)
qed

theorem store_video_info_upsert_witness:
  "video_id video_A2 = video_id video_A1 \<and>
   map title (filter (\<lambda>r. video_id r = ''A'')
      (videos (store_video_info 2000 (store_video_info 1000 (init_database None) video_A1) video_A2))) =
     [''T2''] \<and>
   map_option video_of_row (select_video store_A (video_id video_A1)) = Some video_A1 \<and>
   map_option video_of_row (select_video (store_video_info 2000 store_A video_A1) ''A'') =
     Some video_A1 \<and>
   select_video (init_database None) (video_id video_A1) = None \<and>
   map video_of_row (videos (store_video_info 1000 (init_database None) video_A1)) = [video_A1]"
proof -
  have same: "map_option video_of_row (select_video store_A (video_id video_A1)) = Some video_A1"
    using select_video_store_A by (simp add: video_A1_def)
  have absent: "select_video (init_database None) (video_id video_A1) = None"
    by (simp add: select_video_def init_database_def)
  have ids: "video_id video_A2 = video_id video_A1" "video_id video_A1 = ''A''"
    by (simp_all add: video_A1_def video_A2_def)
  have t2: "title video_A2 = ''T2''"
    by (simp add: video_A2_def)
  from store_video_info_upsert [where ?v2.0 = video_A2 and ?v1.0 = video_A1 and ?t2.0 = 2000
      and ?t1.0 = 1000 and s = "init_database None"] 
    store_video_info_upsert [where s = store_A and v = video_A1 and now = 2000
      and ?v1.0 = video_A1 and ?v2.0 = video_A1] ids same
  have "map video_of_row (filter (\<lambda>r. video_id r = ''A'')
      (videos (store_video_info 2000 (store_video_info 1000 (init_database None) video_A1) video_A2))) =
     [video_A2]"
    and "map_option video_of_row (select_video (store_video_info 2000 store_A video_A1) ''A'') =
     Some video_A1"
    by simp_all
  then have "map title (map video_of_row (filter (\<lambda>r. video_id r = ''A'')
      (videos (store_video_info 2000 (store_video_info 1000 (init_database None) video_A1) video_A2)))) =
     [''T2'']"
    and "map_option video_of_row (select_video (store_video_info 2000 store_A video_A1) ''A'') =
     Some video_A1"
    by (simp_all add: t2)
  moreover have "title \<circ> video_of_row = title"
    by (simp add: fun_eq_iff video_of_row_def)
  moreover from store_video_info_upsert [where s = "init_database None" and v = video_A1
      and now = 1000 and ?v1.0 = video_A1 and ?v2.0 = video_A1] absent
  have "map video_of_row (videos (store_video_info 1000 (init_database None) video_A1)) = [video_A1]"
    by (simp add: init_database_def)
  ultimately show ?thesis
    using ids same absent by simp
qed

text \<open>
  C8 as stated fails: storing \<open>video_A1\<close> again, with the values the table already
  holds, at the later time 2000 gives a different store; the row has a new
  \<open>updated_at\<close> and a new rowid.
\<close>

theorem store_video_info_identical_counterexample:
  "map_option video_of_row (select_video store_A ''A'') = Some video_A1 \<and>
   store_video_info 2000 store_A video_A1 \<noteq> store_A \<and>
   map updated_at (videos store_A) = [1000] \<and>
   map updated_at (videos (store_video_info 2000 store_A video_A1)) = [2000] \<and>
   map rowid (videos store_A) = [1] \<and>
   map rowid (videos (store_video_info 2000 store_A video_A1)) = [2]"
proof -
  have after: "videos (store_video_info 2000 store_A video_A1) =
     [\<lparr>video_id = ''A'', title = ''T1'', published_date = 738886, channel_id = ''UC1'',
       rowid = 2, created_at = 2000, updated_at = 2000\<rparr>]"
    by (simp add: store_video_info_def videos_store_A inserted_row_def new_rowid_def video_A1_def)
  then have "videos (store_video_info 2000 store_A video_A1) \<noteq> videos store_A"
    by (simp add: videos_store_A)
  then have "store_video_info 2000 store_A video_A1 \<noteq> store_A"
    by auto
  then show ?thesis
    by (simp add: select_video_store_A after videos_store_A)
qed

subsection \<open>Upserting daily metrics\<close>

lemma execute_inserts_eq:
  "execute_inserts rows metrics =
     (if list_all bindable metrics then Return (foldl insert_or_replace_metric rows metrics)
      else Raise OverflowError)"
  by (induction metrics arbitrary: rows) simp_all

lemma store_daily_metrics_eq:
  "store_daily_metrics s metrics =
     (if list_all bindable metrics
      then \<lparr>result = Return (),
            db = s\<lparr>daily_metrics := foldl insert_or_replace_metric (daily_metrics s) metrics\<rparr>\<rparr>
      else \<lparr>result = Raise OverflowError, db = s\<rparr>)"
  by (simp add: store_daily_metrics_def execute_inserts_eq)

lemma videos_store_daily_metrics:
  "videos (db (store_daily_metrics s ms)) = videos s"
  by (simp add: store_daily_metrics_eq)

lemma daily_metrics_store_daily_metrics:
  "daily_metrics (db (store_daily_metrics s ms)) =
     (if list_all bindable ms then foldl insert_or_replace_metric (daily_metrics s) ms
      else daily_metrics s)"
  by (simp add: store_daily_metrics_eq)

lemma store_daily_metrics_Nil:
  "db (store_daily_metrics s []) = s"
  by (simp add: store_daily_metrics_eq)

lemma store_daily_metrics_raises:
  "\<not> list_all bindable metrics \<Longrightarrow>
     store_daily_metrics s metrics = \<lparr>result = Raise OverflowError, db = s\<rparr>"
  by (simp add: store_daily_metrics_eq)

lemma filter_key_insert_or_replace:
  "filter (\<lambda>r. metric_key r = k) (insert_or_replace_metric rows m) =
     (if metric_key m = k then [m] else filter (\<lambda>r. metric_key r = k) rows)"
  by (auto simp: insert_or_replace_metric_def filter_empty_conv intro: filter_cong)

lemma filter_key_foldl:
  "filter (\<lambda>r. metric_key r = k) (foldl insert_or_replace_metric rows ms) =
     (if filter (\<lambda>m. metric_key m = k) ms = [] then filter (\<lambda>r. metric_key r = k) rows
      else [last (filter (\<lambda>m. metric_key m = k) ms)])"
proof (induction ms rule: rev_induct)
  case Nil
  then show ?case by simp
next
  case (snoc m ms)
  then show ?case
    by (simp add: filter_key_insert_or_replace)
qed

lemma key_columns:
  "(\<lambda>m. dm_video_id m = vid \<and> dm_date m = day \<and> traffic_source m = source) =
   (\<lambda>m. metric_key m = (vid, day, source))"
  by (simp add: metric_key_def fun_eq_iff)

lemma daily_metrics_calls:
  "daily_metrics (store_daily_metrics_calls s calls) =
     foldl insert_or_replace_metric (daily_metrics s) (concat (filter (list_all bindable) calls))"
  unfolding store_daily_metrics_calls_def
  by (induction calls arbitrary: s) (simp_all add: store_daily_metrics_eq)

lemma set_foldl_insert_or_replace:
  "set (foldl insert_or_replace_metric rows ms) \<subseteq> set rows \<union> set ms"
  by (induction ms rule: rev_induct) (auto simp: insert_or_replace_metric_def)

lemma written_key_has_row:
  assumes "m \<in> set ms"
  shows "\<exists>r \<in> set (foldl insert_or_replace_metric rows ms). metric_key r = metric_key m"
proof -
  have ne: "filter (\<lambda>x. metric_key x = metric_key m) ms \<noteq> []"
    using assms by (auto simp: filter_empty_conv)
  then have "filter (\<lambda>r. metric_key r = metric_key m) (foldl insert_or_replace_metric rows ms) \<noteq> []"
    by (simp add: filter_key_foldl)
  then show ?thesis
    by (auto simp: filter_empty_conv)
qed

lemma bindable_metric_A:
  "bindable (metric_A day source n) \<longleftrightarrow> sqlite_int64 (day - 738886) \<and> sqlite_int64 n"
  by (simp add: bindable_def metric_A_def)

lemma sqlite_int64_small:
  "- 1000000 \<le> n \<Longrightarrow> n \<le> 1000000 \<Longrightarrow> sqlite_int64 n"
  by (simp add: sqlite_int64_def int64_min_def int64_max_def)

text \<open>
  C2, as the code has it. A \<open>store_daily_metrics\<close> call returns when all its metrics
  can be bound; otherwise it raises OverflowError and leaves the database as it was,
  losing also the metrics of that call that came before the one it could not bind. After
  any sequence of calls that all return, from any store, if the last metric for a video,
  a date and a traffic source among the metrics of the calls is \<open>m\<close>, then the table
  has exactly one row for that video, date and traffic source, which is \<open>m\<close>; the views
  read there are the views last written.
\<close>

theorem store_daily_metrics_last_write_wins:
  "(list_all (list_all bindable) calls \<and> last_write vid day source calls = Some m \<longrightarrow>
      read_key (store_daily_metrics_calls s calls) vid day source = [m] \<and>
      map views (read_key (store_daily_metrics_calls s calls) vid day source) = [views m]) \<and>
   (list_all bindable metrics \<longrightarrow> result (store_daily_metrics s metrics) = Return ()) \<and>
   (\<not> list_all bindable metrics \<longrightarrow>
      store_daily_metrics s metrics = \<lparr>result = Raise OverflowError, db = s\<rparr>)"
proof (intro conjI impI)
  assume a: "list_all (list_all bindable) calls \<and> last_write vid day source calls = Some m"
  then have "filter (list_all bindable) calls = calls"
    by (simp add: list_all_iff)
  with a have "read_key (store_daily_metrics_calls s calls) vid day source = [m]"
    by (simp add: read_key_def last_write_def key_columns daily_metrics_calls filter_key_foldl
        Let_def split: if_splits)
  then show "read_key (store_daily_metrics_calls s calls) vid day source = [m]"
    and "map views (read_key (store_daily_metrics_calls s calls) vid day source) = [views m]"
    by simp_all
next
  assume "list_all bindable metrics"
  then show "result (store_daily_metrics s metrics) = Return ()"
    by (simp add: store_daily_metrics_eq)
next
  assume "\<not> list_all bindable metrics"
  then show "store_daily_metrics s metrics = \<lparr>result = Raise OverflowError, db = s\<rparr>"
    by (simp add: store_daily_metrics_eq)
qed

theorem store_daily_metrics_last_write_wins_witness:
  "last_write ''A'' 738886 ''BROWSE''
      [[metric_A 738886 ''BROWSE'' 100, metric_A 738886 ''SEARCH'' 7],
       [metric_A 738886 ''BROWSE'' 40, metric_A 738887 ''BROWSE'' 9]] =
     Some (metric_A 738886 ''BROWSE'' 40) \<and>
   map views (read_key
      (store_daily_metrics_calls (init_database None)
         [[metric_A 738886 ''BROWSE'' 100, metric_A 738886 ''SEARCH'' 7],
          [metric_A 738886 ''BROWSE'' 40, metric_A 738887 ''BROWSE'' 9]])
      ''A'' 738886 ''BROWSE'') = [40] \<and>
   list_all (list_all bindable)
      [[metric_A 738886 ''BROWSE'' 100, metric_A 738886 ''SEARCH'' 7],
       [metric_A 738886 ''BROWSE'' 40, metric_A 738887 ''BROWSE'' 9]] \<and>
   \<not> list_all bindable [metric_A 738886 ''BROWSE'' 100,
                        metric_A 738887 ''BROWSE'' 9223372036854775808]"
proof -
  have b: "list_all bindable [metric_A 738886 ''BROWSE'' 100, metric_A 738886 ''SEARCH'' 7]"
    "list_all bindable [metric_A 738886 ''BROWSE'' 40, metric_A 738887 ''BROWSE'' 9]"
    by (simp_all add: bindable_metric_A sqlite_int64_small)
  have nb: "\<not> list_all bindable [metric_A 738886 ''BROWSE'' 100,
                        metric_A 738887 ''BROWSE'' 9223372036854775808]"
    by (simp add: bindable_metric_A sqlite_int64_small) (simp add: sqlite_int64_def int64_max_def)
  have w: "last_write ''A'' 738886 ''BROWSE''
      [[metric_A 738886 ''BROWSE'' 100, metric_A 738886 ''SEARCH'' 7],
       [metric_A 738886 ''BROWSE'' 40, metric_A 738887 ''BROWSE'' 9]] =
     Some (metric_A 738886 ''BROWSE'' 40)"
    by (simp add: last_write_def metric_A_def)
  show ?thesis
    using w b nb store_daily_metrics_last_write_wins
      [where vid = "''A''" and day = 738886 and source = "''BROWSE''"
        and calls = "[[metric_A 738886 ''BROWSE'' 100, metric_A 738886 ''SEARCH'' 7],
          [metric_A 738886 ''BROWSE'' 40, metric_A 738887 ''BROWSE'' 9]]"
        and m = "metric_A 738886 ''BROWSE'' 40" and s = "init_database None"]
    by (simp add: metric_A_def)
qed

text \<open>
  C2 as stated fails: one call on a fresh database writes 100 views for video A on
  2024-01-01 under BROWSE and then a metric with \<open>2^63\<close> views; the call raises
  OverflowError, and afterwards the table has no row for that video, date and source.
\<close>

theorem store_daily_metrics_rollback_counterexample:
  "filter (\<lambda>m. dm_video_id m = ''A'' \<and> dm_date m = 738886 \<and> traffic_source m = ''BROWSE'')
      [metric_A 738886 ''BROWSE'' 100, metric_A 738887 ''BROWSE'' 9223372036854775808] =
     [metric_A 738886 ''BROWSE'' 100] \<and>
   result (store_daily_metrics (init_database None)
      [metric_A 738886 ''BROWSE'' 100, metric_A 738887 ''BROWSE'' 9223372036854775808]) =
     Raise OverflowError \<and>
   read_key (store_daily_metrics_calls (init_database None)
      [[metric_A 738886 ''BROWSE'' 100, metric_A 738887 ''BROWSE'' 9223372036854775808]])
      ''A'' 738886 ''BROWSE'' = []"
proof -
  have nb: "\<not> list_all bindable [metric_A 738886 ''BROWSE'' 100,
                        metric_A 738887 ''BROWSE'' 9223372036854775808]"
    by (simp add: bindable_metric_A sqlite_int64_small) (simp add: sqlite_int64_def int64_max_def)
  have f: "filter (\<lambda>m. dm_video_id m = ''A'' \<and> dm_date m = 738886 \<and> traffic_source m = ''BROWSE'')
      [metric_A 738886 ''BROWSE'' 100, metric_A 738887 ''BROWSE'' 9223372036854775808] =
     [metric_A 738886 ''BROWSE'' 100]"
    by (simp add: metric_A_def)
  have r: "store_daily_metrics (init_database None)
      [metric_A 738886 ''BROWSE'' 100, metric_A 738887 ''BROWSE'' 9223372036854775808] =
     \<lparr>result = Raise OverflowError, db = init_database None\<rparr>"
    using nb by (simp only: store_daily_metrics_eq if_False)
  have res: "result (store_daily_metrics (init_database None)
      [metric_A 738886 ''BROWSE'' 100, metric_A 738887 ''BROWSE'' 9223372036854775808]) =
     Raise OverflowError"
    by (simp only: r effect.simps)
  have c: "store_daily_metrics_calls (init_database None)
      [[metric_A 738886 ''BROWSE'' 100, metric_A 738887 ''BROWSE'' 9223372036854775808]] =
     init_database None"
    by (simp add: store_daily_metrics_calls_def r)
  have k: "read_key (store_daily_metrics_calls (init_database None)
      [[metric_A 738886 ''BROWSE'' 100, metric_A 738887 ''BROWSE'' 9223372036854775808]])
      ''A'' 738886 ''BROWSE'' = []"
    unfolding c by (simp add: read_key_def init_database_def)
  show ?thesis
    by (intro conjI f res k)
qed

subsection \<open>Sync\<close>

lemma fetch_video_data_video_id:
  "fetch_video_data_from_youtube e vid = Some video_info \<Longrightarrow> video_id video_info = vid"
  by (auto simp: fetch_video_data_from_youtube_def split: option.splits api_result.splits list.splits)

lemma fetch_daily_metric:
  assumes "m \<in> set (fst (fetch_daily_analytics_from_youtube e s vid a b))"
  shows "\<exists>r. select_video s vid = Some r \<and> dm_video_id m = vid \<and>
             days_since_published m = dm_date m - published_date r"
  using assms
  by (auto simp: fetch_daily_analytics_from_youtube_def metric_of_row_def Let_def
      split: option.splits api_result.splits)

lemma date_minus_days_Return:
  "date_minus_days d n = Return earliest \<Longrightarrow> earliest = d - n"
  by (auto simp: date_minus_days_def split: if_splits)

lemma sync_video_cases:
  obtains (failed) "fetch_video_data_from_youtube e vid = None"
      "sync_video e s vid n = \<lparr>result = Return False, db = s, requests = []\<rparr>"
  | (overflow) video_info err where "fetch_video_data_from_youtube e vid = Some video_info"
      "date_minus_days (today e) n = Raise err"
      "sync_video e s vid n =
         \<lparr>result = Raise err, db = store_video_info (current_timestamp e) s video_info,
          requests = []\<rparr>"
  | (empty) video_info where "fetch_video_data_from_youtube e vid = Some video_info"
      "date_minus_days (today e) n = Return (today e - n)"
      "fst (fetch_daily_analytics_from_youtube e (store_video_info (current_timestamp e) s video_info)
              vid (max (published_date video_info) (today e - n)) (today e)) = []"
      "sync_video e s vid n =
         \<lparr>result = Return True, db = store_video_info (current_timestamp e) s video_info,
          requests = snd (fetch_daily_analytics_from_youtube e
              (store_video_info (current_timestamp e) s video_info)
              vid (max (published_date video_info) (today e - n)) (today e))\<rparr>"
  | (stored) video_info where "fetch_video_data_from_youtube e vid = Some video_info"
      "date_minus_days (today e) n = Return (today e - n)"
      "fst (fetch_daily_analytics_from_youtube e (store_video_info (current_timestamp e) s video_info)
              vid (max (published_date video_info) (today e - n)) (today e)) \<noteq> []"
      "sync_video e s vid n =
         \<lparr>result = (case result (store_daily_metrics (store_video_info (current_timestamp e) s video_info)
                        (fst (fetch_daily_analytics_from_youtube e
                           (store_video_info (current_timestamp e) s video_info)
                           vid (max (published_date video_info) (today e - n)) (today e)))) of
                      Raise err \<Rightarrow> Raise err
                    | Return u \<Rightarrow> Return True),
          db = db (store_daily_metrics (store_video_info (current_timestamp e) s video_info)
                     (fst (fetch_daily_analytics_from_youtube e
                        (store_video_info (current_timestamp e) s video_info)
                        vid (max (published_date video_info) (today e - n)) (today e)))),
          requests = snd (fetch_daily_analytics_from_youtube e
              (store_video_info (current_timestamp e) s video_info)
              vid (max (published_date video_info) (today e - n)) (today e))\<rparr>"
proof (cases "fetch_video_data_from_youtube e vid")
  case None
  then show ?thesis using failed by (simp add: sync_video_def)
next
  case (Some video_info)
  show ?thesis
  proof (cases "date_minus_days (today e) n")
    case (Raise err)
    with Some show ?thesis using overflow by (simp add: sync_video_def Let_def)
  next
    case (Return earliest)
    then have earliest: "earliest = today e - n"
      by (rule date_minus_days_Return)
    show ?thesis
    proof (cases "fst (fetch_daily_analytics_from_youtube e
              (store_video_info (current_timestamp e) s video_info)
              vid (max (published_date video_info) (today e - n)) (today e)) = []")
      case True
      with Some Return earliest show ?thesis
        using empty by (simp add: sync_video_def Let_def)
    next
      case False
      with Some Return earliest show ?thesis
        using stored [of video_info] by (simp add: sync_video_def Let_def split: outcome.splits)
    qed
  qed
qed

lemma sync_video_db:
  assumes "fetch_video_data_from_youtube e vid = Some video_info"
  shows "\<exists>ms. set ms \<subseteq> set (fst (fetch_daily_analytics_from_youtube e
                   (store_video_info (current_timestamp e) s video_info) vid
                   (max (published_date video_info) (today e - n)) (today e))) \<and>
              db (sync_video e s vid n) =
                db (store_daily_metrics (store_video_info (current_timestamp e) s video_info) ms)"
proof (cases rule: sync_video_cases [where e = e and s = s and vid = vid and n = n])
  case failed
  with assms show ?thesis by simp
next
  case (overflow video_info' err)
  with assms have "db (sync_video e s vid n) =
      db (store_daily_metrics (store_video_info (current_timestamp e) s video_info) [])"
    by (simp add: store_daily_metrics_Nil)
  then show ?thesis by (intro exI [of _ "[]"]) simp
next
  case (empty video_info')
  with assms have "db (sync_video e s vid n) =
      db (store_daily_metrics (store_video_info (current_timestamp e) s video_info) [])"
    by (simp add: store_daily_metrics_Nil)
  then show ?thesis by (intro exI [of _ "[]"]) simp
next
  case (stored video_info')
  with assms show ?thesis
    by (intro exI [of _ "fst (fetch_daily_analytics_from_youtube e
                   (store_video_info (current_timestamp e) s video_info) vid
                   (max (published_date video_info) (today e - n)) (today e))"]) simp
qed

lemma videos_sync_video:
  "videos (db (sync_video e s vid n)) =
     (case fetch_video_data_from_youtube e vid of
        None \<Rightarrow> videos s
      | Some video_info \<Rightarrow> videos (store_video_info (current_timestamp e) s video_info))"
proof (cases "fetch_video_data_from_youtube e vid")
  case None
  then show ?thesis by (simp add: sync_video_def)
next
  case (Some video_info)
  from sync_video_db [OF Some, of s n] Some show ?thesis
    by (auto simp: videos_store_daily_metrics)
qed

lemma new_rows_of_sync:
  assumes "fetch_video_data_from_youtube e vid = Some video_info"
    and "m \<in> set (daily_metrics (db (sync_video e s vid n))) - set (daily_metrics s)"
  shows "m \<in> set (fst (fetch_daily_analytics_from_youtube e
                   (store_video_info (current_timestamp e) s video_info) vid
                   (max (published_date video_info) (today e - n)) (today e)))"
proof -
  obtain ms where ms: "set ms \<subseteq> set (fst (fetch_daily_analytics_from_youtube e
                   (store_video_info (current_timestamp e) s video_info) vid
                   (max (published_date video_info) (today e - n)) (today e)))"
      and db: "db (sync_video e s vid n) =
                db (store_daily_metrics (store_video_info (current_timestamp e) s video_info) ms)"
    using sync_video_db [OF assms(1)] by blast
  have "m \<in> set ms"
    using assms(2) set_foldl_insert_or_replace [of "daily_metrics s" ms]
    by (auto simp: db daily_metrics_store_daily_metrics daily_metrics_store_video_info
        split: if_splits)
  with ms show ?thesis by blast
qed

text \<open>
The two example worlds, evaluated.
\<close>

lemma fetch_video_env_ok:
  "fetch_video_data_from_youtube env_ok ''A'' = Some video_A1"
  by (simp add: fetch_video_data_from_youtube_def env_ok_def data_client_A_def video_A1_def)

lemma today_env_ok: "today env_ok = 738900"
  by (simp add: env_ok_def)

lemma current_timestamp_env_ok: "current_timestamp env_ok = 1000"
  by (simp add: env_ok_def)

lemma analytics_client_env_ok:
  "get_youtube_analytics_client env_ok =
     Some (\<lambda>q. Returned [(738886, ''BROWSE'', 100), (738888, ''BROWSE'', 50)])"
  by (simp add: env_ok_def)

lemma date_minus_days_30: "date_minus_days 738900 30 = Return 738870"
  by (simp add: date_minus_days_def date_min_def date_max_def timedelta_max_days_def)

lemma fetch_daily_env_ok:
  "fetch_daily_analytics_from_youtube env_ok store_A ''A'' 738886 738900 =
     ([metric_A 738886 ''BROWSE'' 100, metric_A 738888 ''BROWSE'' 50],
      [\<lparr>q_video = ''A'', startDate = 738886, endDate = 738900\<rparr>])"
  by (simp add: fetch_daily_analytics_from_youtube_def analytics_client_env_ok select_video_def
      store_A_eq metric_of_row_def metric_A_def Let_def)

lemma store_daily_metrics_env_ok:
  "store_daily_metrics store_A [metric_A 738886 ''BROWSE'' 100, metric_A 738888 ''BROWSE'' 50] =
     \<lparr>result = Return (),
      db = \<lparr>videos = videos store_A,
            daily_metrics = [metric_A 738886 ''BROWSE'' 100, metric_A 738888 ''BROWSE'' 50]\<rparr>\<rparr>"
  by (simp add: store_daily_metrics_eq bindable_metric_A sqlite_int64_small daily_metrics_store_A
      insert_or_replace_metric_def metric_key_def)
     (simp add: store_A_eq metric_A_def)

lemma sync_video_env_ok:
  "sync_video env_ok (init_database None) ''A'' 30 =
     \<lparr>result = Return True,
      db = \<lparr>videos = videos store_A,
            daily_metrics = [metric_A 738886 ''BROWSE'' 100, metric_A 738888 ''BROWSE'' 50]\<rparr>,
      requests = [\<lparr>q_video = ''A'', startDate = 738886, endDate = 738900\<rparr>]\<rparr>"
proof -
  have s1: "store_video_info (current_timestamp env_ok) (init_database None) video_A1 = store_A"
    by (simp add: store_A_def current_timestamp_env_ok)
  have start: "max (published_date video_A1) 738870 = 738886"
    by (simp add: video_A1_def)
  show ?thesis
    by (simp add: sync_video_def fetch_video_env_ok Let_def today_env_ok date_minus_days_30
        s1 start fetch_daily_env_ok store_daily_metrics_env_ok)
qed

lemma fetch_video_env_analytics_down:
  "fetch_video_data_from_youtube env_analytics_down ''A'' = Some video_A1"
  by (simp add: fetch_video_data_from_youtube_def env_analytics_down_def data_client_A_def video_A1_def)

lemma today_env_analytics_down: "today env_analytics_down = 738900"
  by (simp add: env_analytics_down_def)

lemma current_timestamp_env_analytics_down: "current_timestamp env_analytics_down = 1000"
  by (simp add: env_analytics_down_def)

lemma analytics_client_env_analytics_down:
  "get_youtube_analytics_client env_analytics_down = Some (\<lambda>q. Raised)"
  by (simp add: env_analytics_down_def)

lemma date_minus_days_env_analytics_down:
  "date_minus_days (today env_analytics_down) 30 = Return 738870"
  by (simp add: today_env_analytics_down date_minus_days_30)

lemma analytics_call_fails_env_analytics_down:
  "analytics_call_fails env_analytics_down q"
  by (simp add: analytics_call_fails_def env_analytics_down_def)

lemma sync_video_env_analytics_down:
  "sync_video env_analytics_down (init_database None) ''A'' 30 =
     \<lparr>result = Return True, db = store_A,
      requests = [\<lparr>q_video = ''A'', startDate = 738886, endDate = 738900\<rparr>]\<rparr>"
proof -
  have s1: "store_video_info (current_timestamp env_analytics_down) (init_database None) video_A1 =
              store_A"
    by (simp add: store_A_def current_timestamp_env_analytics_down)
  have start: "max (published_date video_A1) 738870 = 738886"
    by (simp add: video_A1_def)
  have fetched: "fetch_daily_analytics_from_youtube env_analytics_down store_A ''A'' 738886 738900 =
     ([], [\<lparr>q_video = ''A'', startDate = 738886, endDate = 738900\<rparr>])"
    by (simp add: fetch_daily_analytics_from_youtube_def analytics_client_env_analytics_down
        select_video_def store_A_eq Let_def)
  show ?thesis
    by (simp add: sync_video_def fetch_video_env_analytics_down Let_def
        today_env_analytics_down date_minus_days_30 s1 start fetched)
qed

text \<open>
  C3. When the metadata fetch fails (no data client, the request raises, or the
  response has no item for the id), \<open>fetch_video_data_from_youtube\<close> returns None and
  \<open>sync_video\<close> returns False, leaves the store exactly as it was and sends no analytics
  request.
\<close>

theorem sync_video_metadata_failure:
  assumes "get_youtube_data_client e = None \<or>
           (\<exists>data_client. get_youtube_data_client e = Some data_client \<and>
              (data_client vid = Raised \<or> data_client vid = Returned []))"
  shows "fetch_video_data_from_youtube e vid = None \<and>
         sync_video e s vid days_back = \<lparr>result = Return False, db = s, requests = []\<rparr>"
proof -
  from assms have "fetch_video_data_from_youtube e vid = None"
    by (auto simp: fetch_video_data_from_youtube_def)
  then show ?thesis by (simp add: sync_video_def)
qed

theorem sync_video_metadata_failure_witness:
  "data_client_A ''B'' = Returned [] \<and>
   sync_video env_ok store_A ''B'' 30 = \<lparr>result = Return False, db = store_A, requests = []\<rparr>"
  using sync_video_metadata_failure [of env_ok "''B''" store_A 30]
  by (simp add: env_ok_def data_client_A_def)

text \<open>
  C4. When the metadata fetch of a sync returned \<open>video_info\<close>, every metric that
  \<open>fetch_daily_analytics_from_youtube\<close> builds on the store holding that video, and every
  row that the sync adds to \<open>daily_metrics\<close>, has \<open>days_since_published\<close> equal to its
  date minus the video's \<open>published_date\<close>; a metric dated on the publication day has 0.
\<close>

theorem days_since_published_of_sync:
  assumes "fetch_video_data_from_youtube e vid = Some video_info"
  shows "(\<forall>m \<in> set (fst (fetch_daily_analytics_from_youtube e
                           (store_video_info (current_timestamp e) s video_info) vid
                           start_date end_date)).
            days_since_published m = dm_date m - published_date video_info \<and>
            (dm_date m = published_date video_info \<longrightarrow> days_since_published m = 0)) \<and>
         (\<forall>m \<in> set (daily_metrics (db (sync_video e s vid days_back))) - set (daily_metrics s).
            days_since_published m = dm_date m - published_date video_info \<and>
            (dm_date m = published_date video_info \<longrightarrow> days_since_published m = 0))"
proof -
  have sel: "select_video (store_video_info (current_timestamp e) s video_info) vid =
               Some (inserted_row (current_timestamp e) (videos s) video_info)"
    using select_video_store_video_info [of "current_timestamp e" s video_info]
      fetch_video_data_video_id [OF assms]
    by simp
  have built: "days_since_published m = dm_date m - published_date video_info"
    if "m \<in> set (fst (fetch_daily_analytics_from_youtube e
                  (store_video_info (current_timestamp e) s video_info) vid a b))"
    for m a b
    using fetch_daily_metric [OF that] sel by (auto simp: inserted_row_def)
  show ?thesis
  proof (intro conjI ballI)
    fix m
    assume "m \<in> set (fst (fetch_daily_analytics_from_youtube e
                           (store_video_info (current_timestamp e) s video_info) vid
                           start_date end_date))"
    then show "days_since_published m = dm_date m - published_date video_info"
      by (rule built)
    then show "dm_date m = published_date video_info \<longrightarrow> days_since_published m = 0"
      by simp
  next
    fix m
    assume "m \<in> set (daily_metrics (db (sync_video e s vid days_back))) - set (daily_metrics s)"
    from new_rows_of_sync [OF assms this]
    show "days_since_published m = dm_date m - published_date video_info"
      by (rule built)
    then show "dm_date m = published_date video_info \<longrightarrow> days_since_published m = 0"
      by simp
  qed
qed

theorem days_since_published_of_sync_witness:
  "fetch_video_data_from_youtube env_ok ''A'' = Some video_A1 \<and>
   map (\<lambda>m. (dm_date m, days_since_published m))
     (daily_metrics (db (sync_video env_ok (init_database None) ''A'' 30))) =
     [(738886, 0), (738888, 2)] \<and>
   published_date video_A1 = 738886"
  using days_since_published_of_sync [OF fetch_video_env_ok, of "init_database None" 738886 738900 30]
  by (simp add: fetch_video_env_ok sync_video_env_ok metric_A_def video_A1_def)



text \<open>
  C7, as the code has it. When the metadata fetch succeeded and the analytics request
  fails, \<open>sync_video\<close> returns True; the video is upserted and no metric is written.
\<close>

theorem sync_video_analytics_failure_returns_True:
  assumes "fetch_video_data_from_youtube e vid = Some video_info"
    and "date_minus_days (today e) days_back = Return earliest"
    and "analytics_call_fails e
           \<lparr>q_video = vid, startDate = max (published_date video_info) earliest, endDate = today e\<rparr>"
  shows "result (sync_video e s vid days_back) = Return True \<and>
         db (sync_video e s vid days_back) = store_video_info (current_timestamp e) s video_info"
  using assms
  by (auto simp: sync_video_def Let_def fetch_daily_analytics_from_youtube_def
      analytics_call_fails_def split: option.splits api_result.splits)

theorem sync_video_analytics_failure_returns_True_witness:
  "fetch_video_data_from_youtube env_analytics_down ''A'' = Some video_A1 \<and>
   analytics_call_fails env_analytics_down
     \<lparr>q_video = ''A'', startDate = 738886, endDate = 738900\<rparr> \<and>
   result (sync_video env_analytics_down (init_database None) ''A'' 30) = Return True \<and>
   db (sync_video env_analytics_down (init_database None) ''A'' 30) = store_A \<and>
   daily_metrics store_A = []"
  using sync_video_analytics_failure_returns_True [OF fetch_video_env_analytics_down
      date_minus_days_env_analytics_down analytics_call_fails_env_analytics_down,
      of "init_database None"]
  by (simp add: fetch_video_env_analytics_down analytics_call_fails_env_analytics_down
      store_A_def current_timestamp_env_analytics_down daily_metrics_store_video_info)
     (simp add: init_database_def)

text \<open>
  C7 as stated fails: in \<open>env_analytics_down\<close> the metadata fetch succeeds, the one
  analytics request of the sync raises, and \<open>sync_video\<close> does not return False.
\<close>

theorem sync_video_analytics_failure_counterexample:
  "fetch_video_data_from_youtube env_analytics_down ''A'' = Some video_A1 \<and>
   requests (sync_video env_analytics_down (init_database None) ''A'' 30) =
     [\<lparr>q_video = ''A'', startDate = 738886, endDate = 738900\<rparr>] \<and>
   analytics_call_fails env_analytics_down
     \<lparr>q_video = ''A'', startDate = 738886, endDate = 738900\<rparr> \<and>
   result (sync_video env_analytics_down (init_database None) ''A'' 30) \<noteq> Return False"
  by (simp add: sync_video_env_analytics_down fetch_video_env_analytics_down
      analytics_call_fails_env_analytics_down)

text \<open>
  C10. \<open>fetch_daily_analytics_from_youtube\<close> returns no metric and sends no request
  for a \<open>video_id\<close> that is not in \<open>videos\<close>; every metric it returns carries the
  requested \<open>video_id\<close>, which is in \<open>videos\<close>; and every row that \<open>sync_video\<close> adds to
  \<open>daily_metrics\<close> carries the synced \<open>video_id\<close>, which is in \<open>videos\<close> of the
  resulting store.
\<close>

theorem sync_video_metrics_reference_stored_video:
  "(select_video s vid = None \<longrightarrow>
      fetch_daily_analytics_from_youtube e s vid start_date end_date = ([], [])) \<and>
   (\<forall>m \<in> set (fst (fetch_daily_analytics_from_youtube e s vid start_date end_date)).
      dm_video_id m = vid \<and> vid \<in> set (map video_id (videos s))) \<and>
   (\<forall>m \<in> set (daily_metrics (db (sync_video e s vid days_back))) - set (daily_metrics s).
      dm_video_id m = vid \<and> vid \<in> set (map video_id (videos (db (sync_video e s vid days_back)))))"
proof (intro conjI impI ballI)
  assume "select_video s vid = None"
  then show "fetch_daily_analytics_from_youtube e s vid start_date end_date = ([], [])"
    by (simp add: fetch_daily_analytics_from_youtube_def split: option.splits)
next
  fix m
  assume "m \<in> set (fst (fetch_daily_analytics_from_youtube e s vid start_date end_date))"
  from fetch_daily_metric [OF this]
  show "dm_video_id m = vid" and "vid \<in> set (map video_id (videos s))"
    by (auto dest: select_video_Some_mem)
next
  fix m
  assume m: "m \<in> set (daily_metrics (db (sync_video e s vid days_back))) - set (daily_metrics s)"
  have "dm_video_id m = vid \<and> vid \<in> set (map video_id (videos (db (sync_video e s vid days_back))))"
  proof (cases "fetch_video_data_from_youtube e vid")
    case None
    with m show ?thesis by (simp add: sync_video_def)
  next
    case (Some video_info)
    from new_rows_of_sync [OF Some m] have "dm_video_id m = vid"
      using fetch_daily_metric by blast
    moreover have "vid \<in> set (map video_id (videos (db (sync_video e s vid days_back))))"
      using fetch_video_data_video_id [OF Some]
      by (simp add: videos_sync_video Some videos_store_video_info video_id_inserted_row)
    ultimately show ?thesis by simp
  qed
  then show "dm_video_id m = vid"
    and "vid \<in> set (map video_id (videos (db (sync_video e s vid days_back))))"
    by simp_all
qed

theorem sync_video_metrics_reference_stored_video_witness:
  "select_video (init_database None) ''A'' = None \<and>
   fetch_daily_analytics_from_youtube env_ok (init_database None) ''A'' 738886 738900 = ([], []) \<and>
   map dm_video_id (daily_metrics (db (sync_video env_ok (init_database None) ''A'' 30))) = [''A'', ''A''] \<and>
   map video_id (videos (db (sync_video env_ok (init_database None) ''A'' 30))) = [''A'']"
proof -
  have none: "select_video (init_database None) ''A'' = None"
    by (simp add: select_video_def init_database_def)
  show ?thesis
    using none sync_video_metrics_reference_stored_video
      [of "init_database None" "''A''" env_ok 738886 738900 30]
    by (simp add: sync_video_env_ok metric_A_def store_A_eq)
qed

subsection \<open>Referential integrity\<close>

lemma referential_integrity_iff:
  "referential_integrity s \<longleftrightarrow>
     (\<forall>m \<in> set (daily_metrics s). dm_video_id m \<in> set (map video_id (videos s)))"
  by (simp add: referential_integrity_def list_all_iff)

lemma referential_integrity_store_video_info:
  "referential_integrity s \<Longrightarrow> referential_integrity (store_video_info now s v)"
  unfolding referential_integrity_iff
  by (simp add: daily_metrics_store_video_info video_id_mem_store_video_info del: set_map)

lemma referential_integrity_store_daily_metrics:
  assumes "referential_integrity s" and "list_all bindable metrics"
  shows "referential_integrity (db (store_daily_metrics s metrics)) \<longleftrightarrow>
         list_all (\<lambda>m. dm_video_id m \<in> set (map video_id (videos s))) metrics"
proof
  assume ri: "referential_integrity (db (store_daily_metrics s metrics))"
  show "list_all (\<lambda>m. dm_video_id m \<in> set (map video_id (videos s))) metrics"
    unfolding list_all_iff
  proof
    fix m
    assume "m \<in> set metrics"
    then obtain r where r: "r \<in> set (foldl insert_or_replace_metric (daily_metrics s) metrics)"
        and k: "metric_key r = metric_key m"
      using written_key_has_row by blast
    from k have "dm_video_id r = dm_video_id m"
      by (simp add: metric_key_def)
    moreover from ri r assms(2) have "dm_video_id r \<in> set (map video_id (videos s))"
      by (simp add: referential_integrity_iff daily_metrics_store_daily_metrics
          videos_store_daily_metrics)
    ultimately show "dm_video_id m \<in> set (map video_id (videos s))"
      by simp
  qed
next
  assume "list_all (\<lambda>m. dm_video_id m \<in> set (map video_id (videos s))) metrics"
  with assms show "referential_integrity (db (store_daily_metrics s metrics))"
    using set_foldl_insert_or_replace [of "daily_metrics s" metrics]
    unfolding referential_integrity_iff list_all_iff
    by (auto simp: daily_metrics_store_daily_metrics videos_store_daily_metrics)
qed

lemma referential_integrity_sync_video:
  assumes "referential_integrity s"
  shows "referential_integrity (db (sync_video e s vid days_back))"
proof (cases "fetch_video_data_from_youtube e vid")
  case None
  with assms show ?thesis by (simp add: sync_video_def)
next
  case (Some video_info)
  let ?s1 = "store_video_info (current_timestamp e) s video_info"
  obtain ms where ms: "set ms \<subseteq> set (fst (fetch_daily_analytics_from_youtube e ?s1 vid
                 (max (published_date video_info) (today e - days_back)) (today e)))"
    and db: "db (sync_video e s vid days_back) = db (store_daily_metrics ?s1 ms)"
    using sync_video_db [OF Some] by blast
  have s1: "referential_integrity ?s1"
    using assms by (rule referential_integrity_store_video_info)
  have all: "list_all (\<lambda>m. dm_video_id m \<in> set (map video_id (videos ?s1))) ms"
    unfolding list_all_iff
  proof
    fix m
    assume "m \<in> set ms"
    with ms obtain r where "select_video ?s1 vid = Some r" and "dm_video_id m = vid"
      using fetch_daily_metric by blast
    then show "dm_video_id m \<in> set (map video_id (videos ?s1))"
      using select_video_Some_mem by blast
  qed
  show ?thesis
  proof (cases "list_all bindable ms")
    case True
    from referential_integrity_store_daily_metrics [OF s1 True] all show ?thesis
      by (simp add: db)
  next
    case False
    with s1 show ?thesis
      by (simp add: db store_daily_metrics_raises)
  qed
qed

lemma store_orphan_eq:
  "store_daily_metrics (init_database None) [metric_A 738886 ''BROWSE'' 100] =
     \<lparr>result = Return (),
      db = \<lparr>videos = [], daily_metrics = [metric_A 738886 ''BROWSE'' 100]\<rparr>\<rparr>"
  by (simp add: store_daily_metrics_eq bindable_metric_A sqlite_int64_small
      insert_or_replace_metric_def init_database_def)

text \<open>
  C6, as the code has it. \<open>store_video_info\<close> and \<open>sync_video\<close> preserve referential
  integrity. \<open>store_daily_metrics\<close> checks nothing: a call that returns, from a store with
  referential integrity, reaches one exactly when every metric it is given has the
  \<open>video_id\<close> of a stored video; a call that raises leaves the store as it was.
\<close>

theorem referential_integrity_preserved:
  "(referential_integrity s \<longrightarrow> referential_integrity (store_video_info now s v)) \<and>
   (referential_integrity s \<longrightarrow> referential_integrity (db (sync_video e s vid days_back))) \<and>
   (referential_integrity s \<and> result (store_daily_metrics s metrics) = Return () \<longrightarrow>
      (referential_integrity (db (store_daily_metrics s metrics)) \<longleftrightarrow>
       list_all (\<lambda>m. dm_video_id m \<in> set (map video_id (videos s))) metrics)) \<and>
   (result (store_daily_metrics s metrics) \<noteq> Return () \<longrightarrow>
      db (store_daily_metrics s metrics) = s)"
proof (intro conjI impI)
  assume "referential_integrity s"
  then show "referential_integrity (store_video_info now s v)"
    by (rule referential_integrity_store_video_info)
next
  assume "referential_integrity s"
  then show "referential_integrity (db (sync_video e s vid days_back))"
    by (rule referential_integrity_sync_video)
next
  assume a: "referential_integrity s \<and> result (store_daily_metrics s metrics) = Return ()"
  then have "list_all bindable metrics"
    by (simp add: store_daily_metrics_eq split: if_splits)
  with a show "referential_integrity (db (store_daily_metrics s metrics)) \<longleftrightarrow>
       list_all (\<lambda>m. dm_video_id m \<in> set (map video_id (videos s))) metrics"
    using referential_integrity_store_daily_metrics by blast
next
  assume "result (store_daily_metrics s metrics) \<noteq> Return ()"
  then show "db (store_daily_metrics s metrics) = s"
    by (simp add: store_daily_metrics_eq split: if_splits)
qed

theorem referential_integrity_preserved_witness:
  "referential_integrity (init_database None) \<and>
   referential_integrity (store_video_info 1000 (init_database None) video_A1) \<and>
   referential_integrity (db (sync_video env_ok (init_database None) ''A'' 30)) \<and>
   result (store_daily_metrics (init_database None) [metric_A 738886 ''BROWSE'' 100]) = Return () \<and>
   \<not> list_all (\<lambda>m. dm_video_id m \<in> set (map video_id (videos (init_database None))))
        [metric_A 738886 ''BROWSE'' 100] \<and>
   \<not> referential_integrity
        (db (store_daily_metrics (init_database None) [metric_A 738886 ''BROWSE'' 100])) \<and>
   result (store_daily_metrics store_A [metric_A 738886 ''BROWSE'' 9223372036854775808])
     \<noteq> Return () \<and>
   db (store_daily_metrics store_A [metric_A 738886 ''BROWSE'' 9223372036854775808]) = store_A"
proof -
  have init: "referential_integrity (init_database None)"
    by (simp add: referential_integrity_def init_database_def)
  have ret: "result (store_daily_metrics (init_database None) [metric_A 738886 ''BROWSE'' 100]) =
               Return ()"
    by (simp add: store_orphan_eq)
  have orphan: "\<not> list_all (\<lambda>m. dm_video_id m \<in> set (map video_id (videos (init_database None))))
        [metric_A 738886 ''BROWSE'' 100]"
    by (simp add: init_database_def)
  have raises: "result (store_daily_metrics store_A [metric_A 738886 ''BROWSE'' 9223372036854775808])
     \<noteq> Return ()"
    by (simp add: store_daily_metrics_eq bindable_metric_A sqlite_int64_small)
       (simp add: sqlite_int64_def int64_max_def)
  from referential_integrity_preserved
      [of "init_database None" 1000 video_A1 env_ok "''A''" 30 "[metric_A 738886 ''BROWSE'' 100]"]
    init ret orphan
  have a: "referential_integrity (store_video_info 1000 (init_database None) video_A1)"
    and b: "referential_integrity (db (sync_video env_ok (init_database None) ''A'' 30))"
    and c: "\<not> referential_integrity
        (db (store_daily_metrics (init_database None) [metric_A 738886 ''BROWSE'' 100]))"
    by simp_all
  from referential_integrity_preserved
      [of store_A 1000 video_A1 env_ok "''A''" 30 "[metric_A 738886 ''BROWSE'' 9223372036854775808]"]
    raises
  have d: "db (store_daily_metrics store_A [metric_A 738886 ''BROWSE'' 9223372036854775808]) = store_A"
    by simp
  show ?thesis
    by (intro conjI init a b ret orphan c raises d)
qed

text \<open>
  C6 as stated fails: one \<open>store_daily_metrics\<close> call on a fresh database stores a
  metric whose video is not in \<open>videos\<close>.
\<close>

theorem referential_integrity_counterexample:
  "referential_integrity (init_database None) \<and>
   \<not> referential_integrity
        (db (store_daily_metrics (init_database None) [metric_A 738886 ''BROWSE'' 100]))"
  by (simp add: store_orphan_eq referential_integrity_def)
     (simp add: init_database_def metric_A_def)

subsection \<open>The primary key of videos\<close>

text \<open>
  No two rows of \<open>videos\<close> share a \<open>video_id\<close>: it holds in a fresh database and every
  operation keeps it. The two queries below are stated for such stores.
\<close>

lemma distinct_video_ids_invariant:
  "distinct (map video_id (videos (init_database None)))"
  "distinct (map video_id (videos s)) \<Longrightarrow>
     distinct (map video_id (videos (db (store_daily_metrics s ms))))"
  "distinct (map video_id (videos s)) \<Longrightarrow>
     distinct (map video_id (videos (db (sync_video e s vid n))))"
  by (simp_all add: init_database_def videos_store_daily_metrics videos_sync_video
      distinct_video_ids_store_video_info split: option.splits)

subsection \<open>Recent videos\<close>

lemma sorted_desc_ordered:
  "sorted_wrt (\<lambda>a b. published_date b \<le> published_date a) (rev (sort_key published_date xs))"
proof -
  have "sorted (map published_date (sort_key published_date xs))"
    by simp
  then have "sorted_wrt (\<lambda>a b. published_date a \<le> published_date b) (sort_key published_date xs)"
    by (simp only: sorted_map)
  then show ?thesis
    by (simp add: sorted_wrt_rev)
qed

lemma get_recent_videos_rows:
  "sqlite_int64 limit \<Longrightarrow> get_recent_videos s limit = Return (map video_id (recent_rows s limit))"
  by (simp add: get_recent_videos_def recent_rows_def Let_def)

lemma recent_rows_sorted:
  "sorted_wrt (\<lambda>a b. published_date b \<le> published_date a) (recent_rows s limit)"
  by (simp add: recent_rows_def sorted_desc_ordered sorted_wrt_take)

lemma recent_rows_subset:
  "set (recent_rows s limit) \<subseteq> set (videos s)"
  by (auto simp: recent_rows_def dest: in_set_takeD)

lemma recent_rows_take:
  "0 \<le> limit \<Longrightarrow> recent_rows s limit = take (nat limit) (recent_rows s (- 1))"
  by (simp add: recent_rows_def)

lemma mset_recent_rows_all:
  "mset (map video_id (recent_rows s (- 1))) = mset (map video_id (videos s))"
  by (simp add: recent_rows_def)

lemma sqlite_int64_minus_1: "sqlite_int64 (- 1)"
  by (simp add: sqlite_int64_def int64_min_def int64_max_def)

lemma videos_store_three:
  "videos store_three =
     [\<lparr>video_id = ''A'', title = ''T1'', published_date = 738886, channel_id = ''UC1'',
       rowid = 1, created_at = 1000, updated_at = 1000\<rparr>,
      \<lparr>video_id = ''B'', title = ''TB'', published_date = 738900, channel_id = ''UC1'',
       rowid = 2, created_at = 1001, updated_at = 1001\<rparr>,
      \<lparr>video_id = ''C'', title = ''TC'', published_date = 738890, channel_id = ''UC1'',
       rowid = 3, created_at = 1002, updated_at = 1002\<rparr>]"
  by (simp add: store_three_def store_video_info_def store_A_eq inserted_row_def new_rowid_def
      video_B_def video_C_def)

lemma get_recent_videos_store_three:
  "get_recent_videos store_three 2 = Return [''B'', ''C'']"
  "get_recent_videos store_three (- 1) = Return [''B'', ''C'', ''A'']"
  by (simp_all add: get_recent_videos_def Let_def videos_store_three numeral_2_eq_2
      sqlite_int64_small)

text \<open>
  C9, as the code has it. A limit outside the 64-bit range makes \<open>get_recent_videos\<close>
  raise OverflowError. For a limit inside it the call returns a list: with limit -1 the
  list has the \<open>video_id\<close> of every row of \<open>videos\<close>, each as often as the table has it;
  a negative limit returns that whole list and a limit that is not negative its first
  \<open>limit\<close> entries, so at most \<open>limit\<close> ids. The returned ids are in descending order of
  the \<open>published_date\<close> of their videos: of two returned ids, the later one's video was
  not published after the earlier one's.
\<close>

theorem get_recent_videos_limit_and_order:
  "(\<not> sqlite_int64 limit \<longrightarrow> get_recent_videos s limit = Raise OverflowError) \<and>
   (sqlite_int64 limit \<longrightarrow>
      (\<exists>ids unlimited.
         get_recent_videos s limit = Return ids \<and>
         get_recent_videos s (- 1) = Return unlimited \<and>
         mset unlimited = mset (map video_id (videos s)) \<and>
         ids = (if limit < 0 then unlimited else take (nat limit) unlimited) \<and>
         (0 \<le> limit \<longrightarrow> int (length ids) \<le> limit) \<and>
         (distinct (map video_id (videos s)) \<longrightarrow>
            (\<forall>i j. i < j \<and> j < length ids \<longrightarrow>
               (\<exists>ri rj. select_video s (ids ! i) = Some ri \<and>
                         select_video s (ids ! j) = Some rj \<and>
                         published_date rj \<le> published_date ri)))))"
proof (intro conjI impI)
  assume "\<not> sqlite_int64 limit"
  then show "get_recent_videos s limit = Raise OverflowError"
    by (simp add: get_recent_videos_def)
next
  assume fits: "sqlite_int64 limit"
  let ?rows = "recent_rows s limit"
  let ?ids = "map video_id ?rows"
  let ?unlimited = "map video_id (recent_rows s (- 1))"
  have shape: "?ids = (if limit < 0 then ?unlimited else take (nat limit) ?unlimited)"
  proof (cases "limit < 0")
    case True
    then show ?thesis by (simp add: recent_rows_def)
  next
    case False
    then show ?thesis by (simp add: recent_rows_take take_map)
  qed
  have bound: "0 \<le> limit \<longrightarrow> int (length ?ids) \<le> limit"
    by (auto simp: recent_rows_def)
  have order: "\<exists>ri rj. select_video s (?ids ! i) = Some ri \<and> select_video s (?ids ! j) = Some rj \<and>
                       published_date rj \<le> published_date ri"
    if d: "distinct (map video_id (videos s))" and ij: "i < j \<and> j < length ?ids" for i j
  proof -
    from ij have lt: "i < j" "j < length ?rows" "i < length ?rows"
      by simp_all
    have mem: "?rows ! i \<in> set (videos s)" "?rows ! j \<in> set (videos s)"
      using lt recent_rows_subset [of s limit] nth_mem by blast+
    have "published_date (?rows ! j) \<le> published_date (?rows ! i)"
      using recent_rows_sorted [of s limit] lt by (simp add: sorted_wrt_iff_nth_less)
    moreover have "select_video s (?ids ! i) = Some (?rows ! i)"
      using select_video_distinct [OF d mem(1)] lt by simp
    moreover have "select_video s (?ids ! j) = Some (?rows ! j)"
      using select_video_distinct [OF d mem(2)] lt by simp
    ultimately show ?thesis by blast
  qed
  show "\<exists>ids unlimited.
         get_recent_videos s limit = Return ids \<and>
         get_recent_videos s (- 1) = Return unlimited \<and>
         mset unlimited = mset (map video_id (videos s)) \<and>
         ids = (if limit < 0 then unlimited else take (nat limit) unlimited) \<and>
         (0 \<le> limit \<longrightarrow> int (length ids) \<le> limit) \<and>
         (distinct (map video_id (videos s)) \<longrightarrow>
            (\<forall>i j. i < j \<and> j < length ids \<longrightarrow>
               (\<exists>ri rj. select_video s (ids ! i) = Some ri \<and>
                         select_video s (ids ! j) = Some rj \<and>
                         published_date rj \<le> published_date ri)))"
  proof (rule exI [of _ ?ids], rule exI [of _ ?unlimited], intro conjI impI allI)
    show "get_recent_videos s limit = Return ?ids"
      using fits by (rule get_recent_videos_rows)
    show "get_recent_videos s (- 1) = Return ?unlimited"
      using sqlite_int64_minus_1 by (rule get_recent_videos_rows)
    show "mset ?unlimited = mset (map video_id (videos s))"
      by (rule mset_recent_rows_all)
    show "?ids = (if limit < 0 then ?unlimited else take (nat limit) ?unlimited)"
      by (rule shape)
  next
    assume "0 \<le> limit"
    with bound show "int (length ?ids) \<le> limit" by simp
  next
    fix i j
    assume "distinct (map video_id (videos s))" and "i < j \<and> j < length ?ids"
    then show "\<exists>ri rj. select_video s (?ids ! i) = Some ri \<and> select_video s (?ids ! j) = Some rj \<and>
                       published_date rj \<le> published_date ri"
      by (rule order)
  qed
qed

theorem get_recent_videos_limit_and_order_witness:
  "sqlite_int64 2 \<and> get_recent_videos store_three 2 = Return [''B'', ''C''] \<and>
   get_recent_videos store_three (- 1) = Return [''B'', ''C'', ''A''] \<and>
   distinct (map video_id (videos store_three)) \<and>
   map_option video_of_row (select_video store_three ''B'') = Some video_B \<and>
   map_option video_of_row (select_video store_three ''C'') = Some video_C \<and>
   published_date video_C \<le> published_date video_B \<and>
   \<not> sqlite_int64 9223372036854775808 \<and>
   get_recent_videos store_three 9223372036854775808 = Raise OverflowError"
proof -
  have big: "\<not> sqlite_int64 9223372036854775808"
    by (simp add: sqlite_int64_def int64_max_def)
  have two: "sqlite_int64 2"
    by (simp add: sqlite_int64_small)
  from get_recent_videos_limit_and_order [of 9223372036854775808 store_three] big
  have raise: "get_recent_videos store_three 9223372036854775808 = Raise OverflowError"
    by simp
  from get_recent_videos_limit_and_order [of 2 store_three] two
  have "get_recent_videos store_three 2 = Return (take 2 [''B'', ''C'', ''A''])"
    by (auto simp: get_recent_videos_store_three)
  then have ret: "get_recent_videos store_three 2 = Return [''B'', ''C'']"
    by (simp add: numeral_2_eq_2)
  show ?thesis
    using big two raise ret
    by (simp add: get_recent_videos_store_three videos_store_three select_video_def
        video_of_row_def video_B_def video_C_def)
qed

text \<open>
  C9 as stated fails: with three videos stored, the limit \<open>2^63\<close> makes
  \<open>get_recent_videos\<close> raise OverflowError instead of returning a list, and the limit -1
  returns three ids.
\<close>

theorem get_recent_videos_limit_counterexample:
  "(0::int) \<le> 9223372036854775808 \<and>
   get_recent_videos store_three 9223372036854775808 = Raise OverflowError \<and>
   get_recent_videos store_three (- 1) = Return [''B'', ''C'', ''A''] \<and>
   \<not> int (length [''B'', ''C'', ''A'']) \<le> - 1"
  by (simp add: get_recent_videos_store_three)
     (simp add: get_recent_videos_def sqlite_int64_def int64_max_def)

subsection \<open>First week performance\<close>

text \<open>
  The running total of \<open>SUM\<close>: it is the sum when the integers fit in whatever order
  they are added, and it is in error when the sum itself is outside the 64-bit range.
  For integers that are not negative, as view counts are, these are the only two cases.
\<close>

lemma foldl_sum_step_None: "foldl sum_step None vs = None"
  by (induction vs) simp_all

lemma sum_list_min_nonpos: "sum_list (map (min 0) vs) \<le> (0::int)"
  by (induction vs) auto

lemma sum_list_max_nonneg: "(0::int) \<le> sum_list (map (max 0) vs)"
  by (induction vs) auto

lemma foldl_sum_step_fits:
  "int64_min \<le> a + sum_list (map (min 0) vs) \<Longrightarrow> a + sum_list (map (max 0) vs) \<le> int64_max \<Longrightarrow>
     foldl sum_step (Some a) vs = Some (a + sum_list vs)"
proof (induction vs arbitrary: a)
  case Nil
  then show ?case by simp
next
  case (Cons v vs)
  have neg: "sum_list (map (min 0) vs) \<le> 0" and pos: "0 \<le> sum_list (map (max 0) vs)"
    by (rule sum_list_min_nonpos, rule sum_list_max_nonneg)
  from Cons.prems have p1: "int64_min \<le> a + (min 0 v + sum_list (map (min 0) vs))"
    and p2: "a + (max 0 v + sum_list (map (max 0) vs)) \<le> int64_max"
    by simp_all
  from p1 p2 neg pos have fits: "sqlite_int64 (a + v)"
    unfolding sqlite_int64_def by linarith
  have lo: "int64_min \<le> (a + v) + sum_list (map (min 0) vs)"
    using p1 by linarith
  have hi: "(a + v) + sum_list (map (max 0) vs) \<le> int64_max"
    using p2 by linarith
  from Cons.IH [OF lo hi] fits show ?case
    by (simp add: add.assoc)
qed

lemma sqlite_sum_fits:
  "sum_fits_any_order vs \<Longrightarrow> sqlite_sum vs = Some (sum_list vs)"
  using foldl_sum_step_fits [of 0 vs] by (simp add: sum_fits_any_order_def sqlite_sum_def)

lemma sum_fits_any_order_nonneg:
  assumes "\<forall>v \<in> set vs. 0 \<le> v"
  shows "sum_fits_any_order vs \<longleftrightarrow> sqlite_int64 (sum_list vs)"
proof -
  from assms have "sum_list (map (min 0) vs) = 0" and "map (max 0) vs = vs"
    by (induction vs) auto
  moreover from assms have "0 \<le> sum_list vs"
    by (induction vs) auto
  ultimately show ?thesis
    by (simp add: sum_fits_any_order_def sqlite_int64_def int64_min_def)
qed

lemma foldl_sum_step_Some:
  "foldl sum_step (Some a) vs = Some t \<Longrightarrow> sqlite_int64 a \<Longrightarrow>
     t = a + sum_list vs \<and> sqlite_int64 t"
proof (induction vs arbitrary: a)
  case Nil
  then show ?case by simp
next
  case (Cons v vs)
  show ?case
  proof (cases "sqlite_int64 (a + v)")
    case True
    with Cons.prems(1) have "foldl sum_step (Some (a + v)) vs = Some t"
      by simp
    from Cons.IH [OF this True] show ?thesis
      by (auto simp: add.assoc)
  next
    case False
    with Cons.prems(1) show ?thesis
      by (simp add: foldl_sum_step_None)
  qed
qed

lemma sqlite_sum_overflow:
  "\<not> sqlite_int64 (sum_list vs) \<Longrightarrow> sqlite_sum vs = None"
proof (rule ccontr)
  assume out: "\<not> sqlite_int64 (sum_list vs)" and "sqlite_sum vs \<noteq> None"
  then obtain t where "foldl sum_step (Some 0) vs = Some t"
    by (auto simp: sqlite_sum_def)
  from foldl_sum_step_Some [OF this] out show False
    by (simp add: sqlite_int64_def int64_min_def int64_max_def)
qed

lemma insort_key_map:
  "insort_key k (f x) (map f ys) = map f (insort_key (\<lambda>y. k (f y)) x ys)"
  by (induction ys) simp_all

lemma sort_key_map:
  "sort_key k (map f xs) = map f (sort_key (k \<circ> f) xs)"
  by (induction xs) (simp_all add: insort_key_map comp_def)

lemma sum_list_map_sort_key:
  "sum_list (map g (sort_key k xs)) = (sum_list (map g xs) :: int)"
proof -
  have "sum_mset (mset (map g (sort_key k xs))) = sum_mset (mset (map g xs))"
    by simp
  then show ?thesis
    by (simp only: sum_mset_sum_list)
qed

lemma sum_fits_any_order_sort_key:
  "sum_fits_any_order (map g (sort_key k xs)) \<longleftrightarrow> sum_fits_any_order (map g xs)"
  using sum_list_map_sort_key [of "min 0 \<circ> g" k xs] sum_list_map_sort_key [of "max 0 \<circ> g" k xs]
  by (simp add: sum_fits_any_order_def)

lemma joined_columns:
  "joined_views \<circ> (\<lambda>dm::DailyMetric. (v, Some dm)) = views"
  "joined_day \<circ> (\<lambda>dm::DailyMetric. (v, Some dm)) = days_since_published"
  by (simp_all add: fun_eq_iff joined_views_def joined_day_def)

lemma filter_where_join_rows:
  "filter (first_week_where vid source) (join_rows dms v) =
   (if video_id v = vid
    then map (\<lambda>dm. (v, Some dm))
           (filter (\<lambda>m. dm_video_id m = vid \<and> 0 \<le> days_since_published m \<and>
                        days_since_published m \<le> 6 \<and> traffic_source m = source) dms)
    else [])"
proof -
  let ?c = "\<lambda>m. 0 \<le> days_since_published m \<and> days_since_published m \<le> 6 \<and>
                 traffic_source m = source"
  have step: "filter (first_week_where vid source) (map (\<lambda>dm. (v, Some dm)) xs) =
        (if video_id v = vid then map (\<lambda>dm. (v, Some dm)) (filter ?c xs) else [])" for xs
    by (induction xs) (auto simp: first_week_where_def)
  have join: "filter ?c (filter (\<lambda>dm. video_id v = dm_video_id dm) dms) =
        filter (\<lambda>m. dm_video_id m = vid \<and> ?c m) dms" if "video_id v = vid"
    using that by (induction dms) auto
  show ?thesis
  proof (cases "filter (\<lambda>dm. video_id v = dm_video_id dm) dms")
    case Nil
    show ?thesis
    proof (cases "video_id v = vid")
      case True
      from join [OF True] Nil have "filter (\<lambda>m. dm_video_id m = vid \<and> ?c m) dms = []"
        by simp
      with Nil True show ?thesis
        by (simp add: join_rows_def first_week_where_def)
    next
      case False
      with Nil show ?thesis
        by (simp add: join_rows_def first_week_where_def)
    qed
  next
    case (Cons a as)
    show ?thesis
    proof (cases "video_id v = vid")
      case True
      from join [OF True] Cons have "filter (\<lambda>m. dm_video_id m = vid \<and> ?c m) dms = filter ?c (a # as)"
        by simp
      with step [of "a # as"] Cons True show ?thesis
        by (simp add: join_rows_def)
    next
      case False
      with step [of "a # as"] Cons show ?thesis
        by (simp add: join_rows_def)
    qed
  qed
qed

lemma filter_left_join_other:
  assumes "\<forall>v \<in> set vs. video_id v \<noteq> vid"
  shows "filter (first_week_where vid source) (concat (map (join_rows dms) vs)) = []"
  using assms by (induction vs) (simp_all add: filter_where_join_rows)

lemma filter_left_join_distinct:
  assumes "distinct (map video_id vs)"
  shows "filter (first_week_where vid source) (concat (map (join_rows dms) vs)) =
         (case find (\<lambda>r. video_id r = vid) vs of
            None \<Rightarrow> []
          | Some v \<Rightarrow> map (\<lambda>dm. (v, Some dm))
               (filter (\<lambda>m. dm_video_id m = vid \<and> 0 \<le> days_since_published m \<and>
                        days_since_published m \<le> 6 \<and> traffic_source m = source) dms))"
  using assms
proof (induction vs)
  case Nil
  then show ?case by simp
next
  case (Cons v vs)
  show ?case
  proof (cases "video_id v = vid")
    case True
    from Cons.prems have "video_id v \<notin> video_id ` set vs"
      by simp
    with True have "\<forall>x \<in> set vs. video_id x \<noteq> vid"
      by blast
    from filter_left_join_other [OF this] True show ?thesis
      by (simp add: filter_where_join_rows)
  next
    case False
    with Cons show ?thesis
      by (simp add: filter_where_join_rows)
  qed
qed

lemma filter_left_join:
  assumes "distinct (map video_id (videos s))"
  shows "filter (first_week_where vid source) (left_join s) =
         (case select_video s vid of
            None \<Rightarrow> []
          | Some v \<Rightarrow> map (\<lambda>dm. (v, Some dm)) (first_week_rows s vid source))"
  unfolding left_join_def select_video_def first_week_rows_def
  by (rule filter_left_join_distinct [OF assms])

lemma first_week_query_eq:
  assumes "distinct (map video_id (videos s))"
  shows "first_week_query s vid source =
         (case select_video s vid of
            None \<Rightarrow> Return None
          | Some v \<Rightarrow>
              (if first_week_rows s vid source = [] then Return None
               else (case sqlite_sum (map views (sort_key days_since_published
                                                   (first_week_rows s vid source))) of
                       None \<Rightarrow> Raise OperationalError
                     | Some total_views \<Rightarrow>
                         Return (Some (title v, published_date v, total_views)))))"
proof (cases "select_video s vid")
  case None
  then show ?thesis
    by (simp add: first_week_query_def filter_left_join [OF assms])
next
  case (Some v)
  show ?thesis
  proof (cases "first_week_rows s vid source")
    case Nil
    with Some show ?thesis
      by (simp add: first_week_query_def filter_left_join [OF assms])
  next
    case (Cons m ms)
    have "map joined_views (sort_key joined_day (map (\<lambda>dm. (v, Some dm)) (m # ms))) =
            map views (sort_key days_since_published (m # ms))"
      by (simp only: sort_key_map map_map joined_columns)
    with Some Cons show ?thesis
      by (simp add: first_week_query_def filter_left_join [OF assms] del: sort_key_simps)
  qed
qed

lemma first_week_query_raises:
  "first_week_query s vid source = Raise err \<Longrightarrow> err = OperationalError"
  by (auto simp: first_week_query_def simp del: sort_key_simps
      split: list.splits option.splits prod.splits)

lemma first_week_loop_returns:
  assumes "\<forall>vid \<in> set video_ids. first_week_query s vid source = Return (q vid)"
  shows "first_week_loop s source results video_ids =
     Return (\<lambda>vid. if vid \<in> set video_ids
                    then (case q vid of
                            None \<Rightarrow> results vid
                          | Some (t, published, n) \<Rightarrow>
                              Some \<lparr>fw_title = t, fw_published_date = published,
                                   first_week_views = n\<rparr>)
                    else results vid)"
  using assms
proof (induction video_ids arbitrary: results)
  case Nil
  then show ?case by simp
next
  case (Cons v vs)
  then have q: "first_week_query s v source = Return (q v)"
    and rest: "\<forall>vid \<in> set vs. first_week_query s vid source = Return (q vid)"
    by simp_all
  show ?case
  proof (cases "q v")
    case None
    have step: "first_week_loop s source results (v # vs) = first_week_loop s source results vs"
      using q None by simp
    have eq: "(\<lambda>vid. if vid \<in> set vs
                    then (case q vid of
                            None \<Rightarrow> results vid
                          | Some (t, published, n) \<Rightarrow>
                              Some \<lparr>fw_title = t, fw_published_date = published,
                                   first_week_views = n\<rparr>)
                    else results vid) =
              (\<lambda>vid. if vid \<in> set (v # vs)
                    then (case q vid of
                            None \<Rightarrow> results vid
                          | Some (t, published, n) \<Rightarrow>
                              Some \<lparr>fw_title = t, fw_published_date = published,
                                   first_week_views = n\<rparr>)
                    else results vid)"
      using None by (auto simp: fun_eq_iff)
    show ?thesis
      by (simp only: step Cons.IH [OF rest] eq)
  next
    case (Some x)
    obtain t published n where x: "x = (t, published, n)"
      by (cases x)
    let ?results = "results(v \<mapsto> \<lparr>fw_title = t, fw_published_date = published,
                                first_week_views = n\<rparr>)"
    have step: "first_week_loop s source results (v # vs) = first_week_loop s source ?results vs"
      using q Some x by simp
    have eq: "(\<lambda>vid. if vid \<in> set vs
                    then (case q vid of
                            None \<Rightarrow> ?results vid
                          | Some (t, published, n) \<Rightarrow>
                              Some \<lparr>fw_title = t, fw_published_date = published,
                                   first_week_views = n\<rparr>)
                    else ?results vid) =
              (\<lambda>vid. if vid \<in> set (v # vs)
                    then (case q vid of
                            None \<Rightarrow> results vid
                          | Some (t, published, n) \<Rightarrow>
                              Some \<lparr>fw_title = t, fw_published_date = published,
                                   first_week_views = n\<rparr>)
                    else results vid)"
      using Some x by (auto simp: fun_eq_iff split: option.splits)
    show ?thesis
      by (simp only: step Cons.IH [OF rest] eq)
  qed
qed

lemma first_week_loop_raises:
  assumes "\<exists>vid \<in> set video_ids. first_week_query s vid source = Raise OperationalError"
  shows "first_week_loop s source results video_ids = Raise OperationalError"
  using assms
proof (induction video_ids arbitrary: results)
  case Nil
  then show ?case by simp
next
  case (Cons v vs)
  show ?case
  proof (cases "first_week_query s v source")
    case (Raise err)
    with first_week_query_raises [OF Raise] show ?thesis
      by simp
  next
    case (Return r)
    with Cons.prems have "\<exists>vid \<in> set vs. first_week_query s vid source = Raise OperationalError"
      by auto
    from Cons.IH [OF this] Return show ?thesis
      by (simp split: option.splits prod.splits)
  qed
qed

text \<open>
The example stores, evaluated.
\<close>

lemma store_scenario_eq:
  "store_scenario =
     \<lparr>videos = videos store_A,
      daily_metrics = [metric_A 738886 ''BROWSE'' 100, metric_A 738888 ''BROWSE'' 50,
                       metric_A 738895 ''BROWSE'' 10]\<rparr>"
  by (simp add: store_scenario_def store_daily_metrics_eq bindable_metric_A sqlite_int64_small
      daily_metrics_store_A insert_or_replace_metric_def metric_key_def)
     (simp add: store_A_eq metric_A_def)

lemma store_large_eq:
  "store_large =
     \<lparr>videos = videos store_A,
      daily_metrics = [metric_A 738886 ''BROWSE'' 9223372036854775807,
                       metric_A 738887 ''BROWSE'' 1]\<rparr>"
proof -
  have "sqlite_int64 9223372036854775807"
    by (simp add: sqlite_int64_def int64_min_def int64_max_def)
  then show ?thesis
    by (simp add: store_large_def store_daily_metrics_eq bindable_metric_A sqlite_int64_small
        daily_metrics_store_A insert_or_replace_metric_def metric_key_def)
       (simp add: store_A_eq metric_A_def)
qed

lemma store_orphan_def2:
  "store_orphan = \<lparr>videos = [], daily_metrics = [metric_A 738886 ''BROWSE'' 100]\<rparr>"
  by (simp add: store_orphan_def store_orphan_eq)

lemma first_week_rows_scenario:
  "first_week_rows store_scenario ''A'' ''BROWSE'' =
     [metric_A 738886 ''BROWSE'' 100, metric_A 738888 ''BROWSE'' 50]"
  by (simp add: store_scenario_eq first_week_rows_def metric_A_def)

lemma first_week_rows_large:
  "first_week_rows store_large ''A'' ''BROWSE'' =
     [metric_A 738886 ''BROWSE'' 9223372036854775807, metric_A 738887 ''BROWSE'' 1]"
  by (simp add: store_large_eq first_week_rows_def metric_A_def)

lemma first_week_rows_orphan:
  "first_week_rows store_orphan ''A'' ''BROWSE'' = [metric_A 738886 ''BROWSE'' 100]"
  by (simp add: store_orphan_def2 first_week_rows_def metric_A_def)

lemma distinct_examples:
  "distinct (map video_id (videos store_scenario))"
  "distinct (map video_id (videos store_large))"
  "distinct (map video_id (videos store_orphan))"
  by (simp_all add: store_scenario_eq store_large_eq store_orphan_def2 videos_store_A)

lemma select_video_examples:
  "select_video store_scenario ''A'' =
     Some \<lparr>video_id = ''A'', title = ''T1'', published_date = 738886, channel_id = ''UC1'',
           rowid = 1, created_at = 1000, updated_at = 1000\<rparr>"
  "select_video store_scenario ''B'' = None"
  "select_video store_large ''A'' =
     Some \<lparr>video_id = ''A'', title = ''T1'', published_date = 738886, channel_id = ''UC1'',
           rowid = 1, created_at = 1000, updated_at = 1000\<rparr>"
  "select_video store_orphan ''A'' = None"
  by (simp_all add: select_video_def store_scenario_eq store_large_eq store_orphan_def2
      videos_store_A)

lemma views_large_out_of_range:
  "\<not> sqlite_int64 (sum_list (map views (first_week_rows store_large ''A'' ''BROWSE'')))"
  by (simp add: first_week_rows_large metric_A_def sqlite_int64_def int64_max_def)

text \<open>
  C1, as the code has it. When, for every requested \<open>video_id\<close> that has a row in
  \<open>videos\<close>, the views of its first-week rows for the traffic source fit the 64-bit
  total in whatever order they are added, the call returns a mapping. The mapping has a
  \<open>video_id\<close> exactly when it is requested, has a row in \<open>videos\<close> and has at least one
  first-week row for the source; it is then mapped to the video's title and publication
  date and the sum of the views of exactly those rows. Any other \<open>video_id\<close> is absent
  from the mapping. When for some requested \<open>video_id\<close> with a row in \<open>videos\<close> that sum
  is outside the 64-bit range, the call raises OperationalError.
\<close>

theorem analyze_first_week_performance_result:
  assumes "distinct (map video_id (videos s))"
  shows "((\<forall>vid \<in> set video_ids. select_video s vid \<noteq> None \<longrightarrow>
             sum_fits_any_order (map views (first_week_rows s vid source))) \<longrightarrow>
          analyze_first_week_performance s video_ids source =
            Return (\<lambda>vid.
              if vid \<in> set video_ids then
                (case select_video s vid of
                   None \<Rightarrow> None
                 | Some v \<Rightarrow>
                     (if first_week_rows s vid source = [] then None
                      else Some \<lparr>fw_title = title v, fw_published_date = published_date v,
                                 first_week_views =
                                   sum_list (map views (first_week_rows s vid source))\<rparr>))
              else None)) \<and>
         ((\<exists>vid \<in> set video_ids. select_video s vid \<noteq> None \<and>
             \<not> sqlite_int64 (sum_list (map views (first_week_rows s vid source)))) \<longrightarrow>
          analyze_first_week_performance s video_ids source = Raise OperationalError)"
proof (intro conjI impI)
  assume fits: "\<forall>vid \<in> set video_ids. select_video s vid \<noteq> None \<longrightarrow>
             sum_fits_any_order (map views (first_week_rows s vid source))"
  let ?q = "\<lambda>vid. case select_video s vid of
                     None \<Rightarrow> None
                   | Some v \<Rightarrow>
                       (if first_week_rows s vid source = [] then None
                        else Some (title v, published_date v,
                                   sum_list (map views (first_week_rows s vid source))))"
  have "\<forall>vid \<in> set video_ids. first_week_query s vid source = Return (?q vid)"
  proof
    fix vid
    assume "vid \<in> set video_ids"
    with fits show "first_week_query s vid source = Return (?q vid)"
      by (auto simp: first_week_query_eq [OF assms] sqlite_sum_fits sum_fits_any_order_sort_key
          sum_list_map_sort_key split: option.splits)
  qed
  from first_week_loop_returns [OF this, of Map.empty]
  show "analyze_first_week_performance s video_ids source =
            Return (\<lambda>vid.
              if vid \<in> set video_ids then
                (case select_video s vid of
                   None \<Rightarrow> None
                 | Some v \<Rightarrow>
                     (if first_week_rows s vid source = [] then None
                      else Some \<lparr>fw_title = title v, fw_published_date = published_date v,
                                 first_week_views =
                                   sum_list (map views (first_week_rows s vid source))\<rparr>))
              else None)"
    by (auto simp: analyze_first_week_performance_def fun_eq_iff split: option.splits)
next
  assume "\<exists>vid \<in> set video_ids. select_video s vid \<noteq> None \<and>
             \<not> sqlite_int64 (sum_list (map views (first_week_rows s vid source)))"
  then obtain vid v where vid: "vid \<in> set video_ids" and v: "select_video s vid = Some v"
    and out: "\<not> sqlite_int64 (sum_list (map views (first_week_rows s vid source)))"
    by auto
  from out have "first_week_rows s vid source \<noteq> []"
    by (auto simp: sqlite_int64_def int64_min_def int64_max_def)
  with v out have "first_week_query s vid source = Raise OperationalError"
    by (simp add: first_week_query_eq [OF assms] sqlite_sum_overflow sum_list_map_sort_key)
  with vid have "\<exists>vid \<in> set video_ids. first_week_query s vid source = Raise OperationalError"
    by blast
  then show "analyze_first_week_performance s video_ids source = Raise OperationalError"
    unfolding analyze_first_week_performance_def by (rule first_week_loop_raises)
qed

theorem analyze_first_week_performance_result_witness:
  "distinct (map video_id (videos store_scenario)) \<and>
   sum_fits_any_order (map views (first_week_rows store_scenario ''A'' ''BROWSE'')) \<and>
   select_video store_scenario ''B'' = None \<and>
   (\<exists>m. analyze_first_week_performance store_scenario [''A'', ''B''] ''BROWSE'' = Return m \<and>
        m ''A'' = Some \<lparr>fw_title = ''T1'', fw_published_date = 738886, first_week_views = 150\<rparr> \<and>
        m ''B'' = None) \<and>
   distinct (map video_id (videos store_large)) \<and>
   select_video store_large ''A'' \<noteq> None \<and>
   \<not> sqlite_int64 (sum_list (map views (first_week_rows store_large ''A'' ''BROWSE''))) \<and>
   analyze_first_week_performance store_large [''A''] ''BROWSE'' = Raise OperationalError"
proof -
  have fits: "sum_fits_any_order (map views (first_week_rows store_scenario ''A'' ''BROWSE''))"
    by (simp add: first_week_rows_scenario metric_A_def sum_fits_any_order_def int64_min_def
        int64_max_def)
  have hyp: "\<forall>vid \<in> set [''A'', ''B'']. select_video store_scenario vid \<noteq> None \<longrightarrow>
             sum_fits_any_order (map views (first_week_rows store_scenario vid ''BROWSE''))"
    using fits by (simp add: select_video_examples)
  from analyze_first_week_performance_result [OF distinct_examples(1), of "[''A'', ''B'']" "''BROWSE''"]
    hyp
  have ret: "\<exists>m. analyze_first_week_performance store_scenario [''A'', ''B''] ''BROWSE'' = Return m \<and>
        m ''A'' = Some \<lparr>fw_title = ''T1'', fw_published_date = 738886, first_week_views = 150\<rparr> \<and>
        m ''B'' = None"
    by (simp add: select_video_examples first_week_rows_scenario metric_A_def videos_store_A)
  have large: "\<exists>vid \<in> set [''A'']. select_video store_large vid \<noteq> None \<and>
             \<not> sqlite_int64 (sum_list (map views (first_week_rows store_large vid ''BROWSE'')))"
    using views_large_out_of_range by (simp add: select_video_examples)
  from analyze_first_week_performance_result [OF distinct_examples(2), of "[''A'']" "''BROWSE''"]
    large
  have raise: "analyze_first_week_performance store_large [''A''] ''BROWSE'' = Raise OperationalError"
    by blast
  have sel: "select_video store_large ''A'' \<noteq> None"
    by (simp add: select_video_examples)
  show ?thesis
    by (intro conjI distinct_examples fits select_video_examples(2) ret sel
        views_large_out_of_range raise)
qed

text \<open>
  C1 as stated fails on a store with a metric whose video is not in \<open>videos\<close>: the
  requested id has a first-week row for the source, and is absent from the result. It
  also fails on a store where the first-week views of a stored video are \<open>2^63 - 1\<close> and
  1: the call raises instead of returning a mapping.
\<close>

theorem analyze_first_week_performance_counterexample:
  "first_week_rows store_orphan ''A'' ''BROWSE'' = [metric_A 738886 ''BROWSE'' 100] \<and>
   analyze_first_week_performance store_orphan [''A''] ''BROWSE'' = Return Map.empty \<and>
   first_week_rows store_large ''A'' ''BROWSE'' =
     [metric_A 738886 ''BROWSE'' 9223372036854775807, metric_A 738887 ''BROWSE'' 1] \<and>
   select_video store_large ''A'' \<noteq> None \<and>
   analyze_first_week_performance store_large [''A''] ''BROWSE'' = Raise OperationalError"
proof -
  have orphan: "analyze_first_week_performance store_orphan [''A''] ''BROWSE'' = Return Map.empty"
    by (simp add: analyze_first_week_performance_def
        first_week_query_eq [OF distinct_examples(3)] select_video_examples)
  have "sqlite_sum (map views (sort_key days_since_published
                 (first_week_rows store_large ''A'' ''BROWSE''))) = None"
    using views_large_out_of_range by (intro sqlite_sum_overflow) (simp add: sum_list_map_sort_key)
  then have large: "analyze_first_week_performance store_large [''A''] ''BROWSE'' =
      Raise OperationalError"
    by (simp add: analyze_first_week_performance_def
        first_week_query_eq [OF distinct_examples(2)] select_video_examples first_week_rows_large
        del: sort_key_simps)
  have sel: "select_video store_large ''A'' \<noteq> None"
    by (simp add: select_video_examples)
  show ?thesis
    by (intro conjI first_week_rows_orphan orphan first_week_rows_large sel large)
qed

end
